theory Spec2Isabelle
  imports Complex_Main
begin

section \<open>Data model (server/src/db/schema.ts)\<close>

text \<open>
  Every table is the list of its rows, in the order the store scans them. A JavaScript
  \<open>Date\<close> is its epoch value, a \<open>number\<close> that holds an id, a page or a count is an
  \<open>int\<close>, a nullable column is an \<open>option\<close>. Field names carry a prefix for their
  table, since several tables share column names. The numbers that callers pass as ids
  are whole numbers; the id columns are 32-bit (\<open>serial\<close>, \<open>integer\<close>), and a query
  that compares one with a number beyond that range is refused by the store.
\<close>

type_synonym timestamp = int

datatype user_role = super_admin | author

datatype post_status = draft | published

record user =
  u_id :: int
  u_email :: string
  u_username :: string
  u_password_hash :: string
  u_first_name :: string
  u_last_name :: string
  u_role :: user_role
  u_avatar_url :: "string option"
  u_bio :: "string option"
  u_is_active :: bool
  u_created_at :: timestamp
  u_updated_at :: timestamp

record category =
  c_id :: int
  c_name :: string
  c_slug :: string
  c_description :: "string option"
  c_created_at :: timestamp
  c_updated_at :: timestamp

record tag =
  t_id :: int
  t_name :: string
  t_slug :: string
  t_created_at :: timestamp
  t_updated_at :: timestamp

record blog_post =
  p_id :: int
  p_title :: string
  p_slug :: string
  p_content :: string
  p_excerpt :: "string option"
  p_author_id :: int
  p_featured_image_url :: "string option"
  p_status :: post_status
  p_published_at :: "timestamp option"
  p_created_at :: timestamp
  p_updated_at :: timestamp

record blog_post_category =
  pc_blog_post_id :: int
  pc_category_id :: int

record blog_post_tag =
  pt_blog_post_id :: int
  pt_tag_id :: int

record adsense_config =
  ad_id :: int
  ad_publisher_id :: string
  ad_slot_header :: "string option"
  ad_slot_sidebar :: "string option"
  ad_slot_footer :: "string option"
  ad_slot_in_content :: "string option"
  ad_is_enabled :: bool
  ad_created_at :: timestamp
  ad_updated_at :: timestamp

text \<open>
  The store: the seven tables, and the next value of the \<open>serial\<close> sequence behind
  \<open>blog_posts.id\<close>.
\<close>

record db =
  usersTable :: "user list"
  categoriesTable :: "category list"
  tagsTable :: "tag list"
  blogPostsTable :: "blog_post list"
  blogPostCategoriesTable :: "blog_post_category list"
  blogPostTagsTable :: "blog_post_tag list"
  adSenseConfigTable :: "adsense_config list"
  blog_posts_id_seq :: int

section \<open>Ad configuration handler\<close>

text \<open>\<open>getAdSenseConfig\<close>: \<open>select().from(adSenseConfigTable).limit(1)\<close>, null on no row.\<close>

definition getAdSenseConfig :: "db \<Rightarrow> adsense_config option" where
  "getAdSenseConfig d =
     (case take 1 (adSenseConfigTable d) of
        [] \<Rightarrow> None
      | r # _ \<Rightarrow> Some r)"

text \<open>The object type that \<open>getPublicAdSenseConfig\<close> declares and builds: five fields.\<close>

record public_adsense_config =
  pub_ad_slot_header :: "string option"
  pub_ad_slot_sidebar :: "string option"
  pub_ad_slot_footer :: "string option"
  pub_ad_slot_in_content :: "string option"
  pub_is_enabled :: bool

definition getPublicAdSenseConfig :: "db \<Rightarrow> public_adsense_config option" where
  "getPublicAdSenseConfig d =
     (case getAdSenseConfig d of
        None \<Rightarrow> None
      | Some config \<Rightarrow>
          Some \<lparr> pub_ad_slot_header = ad_slot_header config,
                 pub_ad_slot_sidebar = ad_slot_sidebar config,
                 pub_ad_slot_footer = ad_slot_footer config,
                 pub_ad_slot_in_content = ad_slot_in_content config,
                 pub_is_enabled = ad_is_enabled config \<rparr>)"

section \<open>User handler: listing\<close>

record pagination_input =
  page :: int
  limit :: int

record users_page =
  up_items :: "user list"
  up_total :: int
  up_page :: int
  up_limit :: int
  up_totalPages :: int

text \<open>
  \<open>Math.ceil(total / limit)\<close> on a count and a positive limit, in integer arithmetic:
  the quotient, plus one when the division leaves a remainder.
\<close>

definition math_ceil_div :: "int \<Rightarrow> int \<Rightarrow> int" where
  "math_ceil_div tot lmt =
     (if tot mod lmt = 0 then tot div lmt else tot div lmt + 1)"

text \<open>
  \<open>getUsers\<close>: the count is the length of an unfiltered select; the page is
  \<open>LIMIT limit OFFSET (page - 1) * limit\<close> of an unfiltered, unordered select.
\<close>

definition getUsers :: "db \<Rightarrow> pagination_input \<Rightarrow> users_page" where
  "getUsers d input =
     (let offset = (page input - 1) * limit input;
          tot = int (length (usersTable d));
          users = take (nat (limit input)) (drop (nat offset) (usersTable d));
          totalPages = math_ceil_div tot (limit input)
      in \<lparr> up_items = users, up_total = tot, up_page = page input,
           up_limit = limit input, up_totalPages = totalPages \<rparr>)"

section \<open>Blog post handler: writes\<close>

text \<open>
  A thrown \<open>Error\<close> is its message; a handler returns \<open>Inl message\<close> where the source
  throws and \<open>Inr\<close> of the new store and the returned value where it returns.
\<close>

type_synonym error = string

text \<open>
  The range of an \<open>integer\<close> column, and the store's error for a query parameter outside
  it (the store's own text also quotes the value). Every \<open>eq(table.id, x)\<close> of the
  handlers sends \<open>x\<close> as such a parameter.
\<close>

definition int4 :: "int \<Rightarrow> bool" where
  "int4 i = (- 2147483648 \<le> i \<and> i \<le> 2147483647)"

definition integer_out_of_range :: error where
  "integer_out_of_range = ''value is out of range for type integer''"

text \<open>
  Optional input fields: \<open>None\<close> is \<open>undefined\<close> (the key is absent). The nullable
  optional ones (\<open>excerpt\<close>, \<open>featured_image_url\<close>) have \<open>Some None\<close> for \<open>null\<close>.
\<close>

record create_blog_post_input =
  cbp_title :: string
  cbp_slug :: string
  cbp_content :: string
  cbp_excerpt :: "string option option"
  cbp_featured_image_url :: "string option option"
  cbp_status :: post_status
  cbp_category_ids :: "int list"
  cbp_tag_ids :: "int list option"

record update_blog_post_input =
  ubp_id :: int
  ubp_title :: "string option"
  ubp_slug :: "string option"
  ubp_content :: "string option"
  ubp_excerpt :: "string option option"
  ubp_featured_image_url :: "string option option"
  ubp_status :: "post_status option"
  ubp_category_ids :: "int list option"
  ubp_tag_ids :: "int list option"

text \<open>\<open>x || null\<close> on \<open>string | null | undefined\<close>: the empty string is falsy too.\<close>

fun or_null :: "string option option \<Rightarrow> string option" where
  "or_null None = None"
| "or_null (Some None) = None"
| "or_null (Some (Some s)) = (if s = [] then None else Some s)"

text \<open>
  \<open>select().from(table).where(or(...ids.map(id => eq(table.id, id))))\<close>: the rows whose id
  is one of \<open>ids\<close>, each row once. With no id, \<open>or()\<close> is \<open>undefined\<close> and the query has no
  \<open>WHERE\<close> clause: it returns every row.
\<close>

definition select_where_id_in :: "('r \<Rightarrow> int) \<Rightarrow> int list \<Rightarrow> 'r list \<Rightarrow> 'r list" where
  "select_where_id_in key ids rows =
     (if ids = [] then rows else filter (\<lambda>r. key r \<in> set ids) rows)"

text \<open>The store's error on a second row with the same \<open>blog_posts.slug\<close> (a unique column).\<close>

definition unique_violation :: error where
  "unique_violation = ''duplicate key value violates unique constraint''"

text \<open>
  \<open>createBlogPost\<close>. The row gets its id from the sequence and both timestamps from
  \<open>defaultNow()\<close>; \<open>now\<close> is the clock. Each select throws the store's range error
  before its result is looked at.
\<close>

definition createBlogPost ::
    "timestamp \<Rightarrow> db \<Rightarrow> create_blog_post_input \<Rightarrow> int \<Rightarrow> error + (db \<times> blog_post)" where
  "createBlogPost now d input authorId =
     (if \<not> int4 authorId then Inl integer_out_of_range
      else
      let author = filter (\<lambda>u. u_id u = authorId) (usersTable d) in
      if length author = 0 then Inl ''Author not found''
      else if \<not> list_all int4 (cbp_category_ids input) then Inl integer_out_of_range
      else
        let categories = select_where_id_in c_id (cbp_category_ids input) (categoriesTable d) in
        if length categories \<noteq> length (cbp_category_ids input)
        then Inl ''One or more categories not found''
        else if (case cbp_tag_ids input of
                   None \<Rightarrow> False
                 | Some tag_ids \<Rightarrow> length tag_ids > 0 \<and> \<not> list_all int4 tag_ids)
        then Inl integer_out_of_range
        else if (case cbp_tag_ids input of
                   None \<Rightarrow> False
                 | Some tag_ids \<Rightarrow>
                     length tag_ids > 0 \<and>
                     length (select_where_id_in t_id tag_ids (tagsTable d)) \<noteq> length tag_ids)
        then Inl ''One or more tags not found''
        else
          let publishedAt = (if cbp_status input = published then Some now else None);
              blogPost = \<lparr> p_id = blog_posts_id_seq d,
                           p_title = cbp_title input,
                           p_slug = cbp_slug input,
                           p_content = cbp_content input,
                           p_excerpt = or_null (cbp_excerpt input),
                           p_author_id = authorId,
                           p_featured_image_url = or_null (cbp_featured_image_url input),
                           p_status = cbp_status input,
                           p_published_at = publishedAt,
                           p_created_at = now,
                           p_updated_at = now \<rparr>
          in
          if filter (\<lambda>p. p_slug p = cbp_slug input) (blogPostsTable d) \<noteq> []
          then Inl unique_violation
          else
            let category_rows =
                  (if length (cbp_category_ids input) > 0
                   then map (\<lambda>categoryId. \<lparr> pc_blog_post_id = p_id blogPost,
                                              pc_category_id = categoryId \<rparr>)
                            (cbp_category_ids input)
                   else []);
                tag_rows =
                  (case cbp_tag_ids input of
                     None \<Rightarrow> []
                   | Some tag_ids \<Rightarrow>
                       if length tag_ids > 0
                       then map (\<lambda>tagId. \<lparr> pt_blog_post_id = p_id blogPost,
                                             pt_tag_id = tagId \<rparr>) tag_ids
                       else [])
            in Inr (d \<lparr> blogPostsTable := blogPostsTable d @ [blogPost],
                         blog_posts_id_seq := blog_posts_id_seq d + 1,
                         blogPostCategoriesTable := blogPostCategoriesTable d @ category_rows,
                         blogPostTagsTable := blogPostTagsTable d @ tag_rows \<rparr>,
                    blogPost))"

text \<open>
  \<open>updateBlogPost\<close>. \<open>set_values\<close> is the effect of the \<open>updateValues\<close> object on a row:
  \<open>updated_at\<close> always, each other column only when its input field is not
  \<open>undefined\<close>, \<open>published_at\<close> together with \<open>status\<close>. The store writes the new
  version of an updated row behind the rows it leaves alone, so a later scan meets it
  last; \<open>result[0]\<close> is the new version of \<open>existingPost[0]\<close>. An \<open>UPDATE\<close> that would
  give two posts the same slug is refused as a whole.
\<close>

definition determine_published_at ::
    "timestamp \<Rightarrow> post_status option \<Rightarrow> blog_post \<Rightarrow> timestamp option" where
  "determine_published_at now input_status post =
     (if input_status = Some published \<and> p_status post = draft then Some now
      else if input_status = Some draft then None
      else p_published_at post)"

definition set_values ::
    "timestamp \<Rightarrow> update_blog_post_input \<Rightarrow> timestamp option \<Rightarrow> blog_post \<Rightarrow> blog_post" where
  "set_values now input publishedAt row =
     row \<lparr> p_updated_at := now,
           p_title := (case ubp_title input of None \<Rightarrow> p_title row | Some v \<Rightarrow> v),
           p_slug := (case ubp_slug input of None \<Rightarrow> p_slug row | Some v \<Rightarrow> v),
           p_content := (case ubp_content input of None \<Rightarrow> p_content row | Some v \<Rightarrow> v),
           p_excerpt := (case ubp_excerpt input of None \<Rightarrow> p_excerpt row | Some v \<Rightarrow> v),
           p_featured_image_url :=
             (case ubp_featured_image_url input of
                None \<Rightarrow> p_featured_image_url row | Some v \<Rightarrow> v),
           p_status := (case ubp_status input of None \<Rightarrow> p_status row | Some v \<Rightarrow> v),
           p_published_at :=
             (case ubp_status input of None \<Rightarrow> p_published_at row | Some _ \<Rightarrow> publishedAt) \<rparr>"

definition updateBlogPost ::
    "timestamp \<Rightarrow> db \<Rightarrow> update_blog_post_input \<Rightarrow> int \<Rightarrow> string \<Rightarrow> error + (db \<times> blog_post)" where
  "updateBlogPost now d input currentUserId currentUserRole =
     (if \<not> int4 (ubp_id input) then Inl integer_out_of_range
      else
      case filter (\<lambda>p. p_id p = ubp_id input) (blogPostsTable d) of
        [] \<Rightarrow> Inl ''Blog post not found''
      | post # _ \<Rightarrow>
          if currentUserRole \<noteq> ''super_admin'' \<and> p_author_id post \<noteq> currentUserId
          then Inl ''Permission denied: can only update your own posts''
          else if (case ubp_category_ids input of
                     None \<Rightarrow> False
                   | Some category_ids \<Rightarrow>
                       length category_ids > 0 \<and> \<not> list_all int4 category_ids)
          then Inl integer_out_of_range
          else if (case ubp_category_ids input of
                     None \<Rightarrow> False
                   | Some category_ids \<Rightarrow>
                       length category_ids > 0 \<and>
                       length (select_where_id_in c_id category_ids (categoriesTable d))
                         \<noteq> length category_ids)
          then Inl ''One or more categories not found''
          else if (case ubp_tag_ids input of
                     None \<Rightarrow> False
                   | Some tag_ids \<Rightarrow> length tag_ids > 0 \<and> \<not> list_all int4 tag_ids)
          then Inl integer_out_of_range
          else if (case ubp_tag_ids input of
                     None \<Rightarrow> False
                   | Some tag_ids \<Rightarrow>
                       length tag_ids > 0 \<and>
                       length (select_where_id_in t_id tag_ids (tagsTable d)) \<noteq> length tag_ids)
          then Inl ''One or more tags not found''
          else
            let publishedAt = determine_published_at now (ubp_status input) post in
            if (case ubp_slug input of
                  None \<Rightarrow> False
                | Some v \<Rightarrow>
                    filter (\<lambda>p. p_id p \<noteq> ubp_id input \<and> p_slug p = v) (blogPostsTable d) \<noteq> [])
            then Inl unique_violation
            else
              let updated = map (set_values now input publishedAt)
                                (filter (\<lambda>p. p_id p = ubp_id input) (blogPostsTable d));
                  posts = filter (\<lambda>p. p_id p \<noteq> ubp_id input) (blogPostsTable d) @ updated;
                  result = set_values now input publishedAt post;
                  category_rows =
                    (case ubp_category_ids input of
                       None \<Rightarrow> blogPostCategoriesTable d
                     | Some category_ids \<Rightarrow>
                         filter (\<lambda>r. pc_blog_post_id r \<noteq> ubp_id input)
                                (blogPostCategoriesTable d)
                         @ (if length category_ids > 0
                            then map (\<lambda>categoryId. \<lparr> pc_blog_post_id = ubp_id input,
                                                       pc_category_id = categoryId \<rparr>)
                                     category_ids
                            else []));
                  tag_rows =
                    (case ubp_tag_ids input of
                       None \<Rightarrow> blogPostTagsTable d
                     | Some tag_ids \<Rightarrow>
                         filter (\<lambda>r. pt_blog_post_id r \<noteq> ubp_id input) (blogPostTagsTable d)
                         @ (if length tag_ids > 0
                            then map (\<lambda>tagId. \<lparr> pt_blog_post_id = ubp_id input,
                                                  pt_tag_id = tagId \<rparr>) tag_ids
                            else []))
              in Inr (d \<lparr> blogPostsTable := posts,
                           blogPostCategoriesTable := category_rows,
                           blogPostTagsTable := tag_rows \<rparr>,
                      result))"

text \<open>
  \<open>deleteBlogPost\<close>. The association rows of the post go with it: both join tables
  reference \<open>blog_posts.id\<close> with \<open>onDelete: 'cascade'\<close>.
\<close>

definition deleteBlogPost :: "db \<Rightarrow> int \<Rightarrow> int \<Rightarrow> string \<Rightarrow> error + (db \<times> bool)" where
  "deleteBlogPost d postId currentUserId currentUserRole =
     (if \<not> int4 postId then Inl integer_out_of_range
      else
      case filter (\<lambda>p. p_id p = postId) (blogPostsTable d) of
        [] \<Rightarrow> Inl ''Blog post not found''
      | post # _ \<Rightarrow>
          if currentUserRole \<noteq> ''super_admin'' \<and> p_author_id post \<noteq> currentUserId
          then Inl ''Permission denied: can only delete your own posts''
          else Inr (d \<lparr> blogPostsTable := filter (\<lambda>p. p_id p \<noteq> postId) (blogPostsTable d),
                       blogPostCategoriesTable :=
                         filter (\<lambda>r. pc_blog_post_id r \<noteq> postId) (blogPostCategoriesTable d),
                       blogPostTagsTable :=
                         filter (\<lambda>r. pt_blog_post_id r \<noteq> postId) (blogPostTagsTable d) \<rparr>,
                    True))"


section \<open>Auth handler\<close>

text \<open>
  Platform functions. \<open>btoa\<close> is base64 (RFC 4648, with padding) of the string's
  characters, each one byte, as it is for the Latin-1 strings \<open>btoa\<close> accepts;
  \<open>.replace(/=/g, '')\<close> drops the padding.
\<close>

definition b64_alphabet :: string where
  "b64_alphabet = ''ABCDEFGHIJKLMNOPQRSTUVWXYZabcdefghijklmnopqrstuvwxyz0123456789+/''"

definition b64_char :: "nat \<Rightarrow> char" where
  "b64_char n = b64_alphabet ! n"

fun b64_encode :: "nat list \<Rightarrow> string" where
  "b64_encode [] = []"
| "b64_encode [a] =
     [b64_char (a div 4), b64_char ((a mod 4) * 16), CHR ''='', CHR ''='']"
| "b64_encode [a, b] =
     [b64_char (a div 4), b64_char ((a mod 4) * 16 + b div 16),
      b64_char ((b mod 16) * 4), CHR ''='']"
| "b64_encode (a # b # c # rest) =
     b64_char (a div 4) # b64_char ((a mod 4) * 16 + b div 16)
       # b64_char ((b mod 16) * 4 + c div 64) # b64_char (c mod 64) # b64_encode rest"

definition btoa :: "string \<Rightarrow> string" where
  "btoa s = b64_encode (map of_char s)"

definition strip_padding :: "string \<Rightarrow> string" where
  "strip_padding s = filter (\<lambda>c. c \<noteq> CHR ''='') s"

text \<open>\<open>token.split('.')\<close>: the parts between the dots, empty parts included.\<close>

fun split_dot :: "string \<Rightarrow> string list" where
  "split_dot [] = [[]]"
| "split_dot (c # cs) =
     (if c = CHR ''.'' then [] # split_dot cs
      else (case split_dot cs of [] \<Rightarrow> [[c]] | part # parts \<Rightarrow> (c # part) # parts))"

text \<open>\<open>JSON.stringify({ alg: 'HS256', typ: 'JWT' })\<close>\<close>

definition header_json :: string where
  \<open>header_json = ''{"alg":"HS256","typ":"JWT"}''\<close>

text \<open>
  The argument of \<open>createToken\<close> and the result of \<open>verifyTokenSignature\<close>; the claims
  that \<open>createToken\<close> serialises; and what \<open>JSON.parse\<close> yields for a payload. A payload
  is read at \<open>userId\<close>, \<open>email\<close>, \<open>role\<close> and \<open>exp\<close> only; \<open>exp\<close> may be absent.
\<close>

record token_payload =
  tp_userId :: int
  tp_email :: string
  tp_role :: string

record token_claims =
  tc_userId :: int
  tc_email :: string
  tc_role :: string
  tc_iat :: int
  tc_exp :: int

record parsed_payload =
  pp_userId :: int
  pp_email :: string
  pp_role :: string
  pp_exp :: "int option"

text \<open>
  What the handlers take from their environment: the \<open>JWT_SECRET\<close> variable,
  \<open>Date.now()\<close> in milliseconds, \<open>JSON.stringify\<close> on the claims,
  \<open>JSON.parse(atob(encodedPayload))\<close> (\<open>None\<close> when either throws) and the
  hexadecimal SHA-256 digest behind \<open>hashPassword\<close>.
\<close>

record platform =
  env_JWT_SECRET :: "string option"
  date_now :: int
  json_stringify :: "token_claims \<Rightarrow> string"
  json_parse_atob :: "string \<Rightarrow> parsed_payload option"
  sha256_hex :: "string \<Rightarrow> string"

text \<open>\<open>process.env['JWT_SECRET'] || 'your-secret-key'\<close>\<close>

definition JWT_SECRET :: "platform \<Rightarrow> string" where
  "JWT_SECRET pf =
     (case env_JWT_SECRET pf of
        None \<Rightarrow> ''your-secret-key''
      | Some v \<Rightarrow> if v = [] then ''your-secret-key'' else v)"

definition JWT_EXPIRES_IN_HOURS :: int where
  "JWT_EXPIRES_IN_HOURS = 24"

definition hashPassword :: "platform \<Rightarrow> string \<Rightarrow> string" where
  "hashPassword pf password = sha256_hex pf (password @ ''salt'')"

definition verifyPassword :: "platform \<Rightarrow> string \<Rightarrow> string \<Rightarrow> bool" where
  "verifyPassword pf password hash = (hashPassword pf password = hash)"

definition createToken :: "platform \<Rightarrow> token_payload \<Rightarrow> string" where
  "createToken pf payload =
     (let now = date_now pf div 1000;
          claims = \<lparr> tc_userId = tp_userId payload, tc_email = tp_email payload,
                     tc_role = tp_role payload, tc_iat = now,
                     tc_exp = now + JWT_EXPIRES_IN_HOURS * 60 * 60 \<rparr>;
          encodedHeader = strip_padding (btoa header_json);
          encodedPayload = strip_padding (btoa (json_stringify pf claims));
          signature = strip_padding
                        (btoa (encodedHeader @ ''.'' @ encodedPayload @ ''.'' @ JWT_SECRET pf))
      in encodedHeader @ ''.'' @ encodedPayload @ ''.'' @ signature)"

text \<open>
  \<open>verifyTokenSignature\<close>. The \<open>try\<close>/\<open>catch\<close> turns every throw into null.
  \<open>payload.exp && payload.exp < now\<close>: a missing \<open>exp\<close> and the number 0 are falsy.
\<close>

definition verifyTokenSignature :: "platform \<Rightarrow> string \<Rightarrow> token_payload option" where
  "verifyTokenSignature pf token =
     (case split_dot token of
        [encodedHeader, encodedPayload, signature] \<Rightarrow>
          let expectedSignature = strip_padding
                (btoa (encodedHeader @ ''.'' @ encodedPayload @ ''.'' @ JWT_SECRET pf))
          in
          if signature \<noteq> expectedSignature then None
          else
            (case json_parse_atob pf encodedPayload of
               None \<Rightarrow> None
             | Some payload \<Rightarrow>
                 let now = date_now pf div 1000 in
                 if (case pp_exp payload of None \<Rightarrow> False | Some e \<Rightarrow> e \<noteq> 0 \<and> e < now)
                 then None
                 else Some \<lparr> tp_userId = pp_userId payload, tp_email = pp_email payload,
                             tp_role = pp_role payload \<rparr>)
      | _ \<Rightarrow> None)"

text \<open>
  The signature of the parts \<open>h\<close> and \<open>p\<close>: the expression that \<open>createToken\<close> signs with
  and \<open>verifyTokenSignature\<close> recomputes.
\<close>

definition sign_parts :: "platform \<Rightarrow> string \<Rightarrow> string \<Rightarrow> string" where
  "sign_parts pf h p = strip_padding (btoa (h @ ''.'' @ p @ ''.'' @ JWT_SECRET pf))"

text \<open>\<open>const { password_hash, ...userWithoutPassword } = user\<close>: every field but one.\<close>

record user_without_password =
  uw_id :: int
  uw_email :: string
  uw_username :: string
  uw_first_name :: string
  uw_last_name :: string
  uw_role :: user_role
  uw_avatar_url :: "string option"
  uw_bio :: "string option"
  uw_is_active :: bool
  uw_created_at :: timestamp
  uw_updated_at :: timestamp

definition userWithoutPassword :: "user \<Rightarrow> user_without_password" where
  "userWithoutPassword u =
     \<lparr> uw_id = u_id u, uw_email = u_email u, uw_username = u_username u,
       uw_first_name = u_first_name u, uw_last_name = u_last_name u, uw_role = u_role u,
       uw_avatar_url = u_avatar_url u, uw_bio = u_bio u, uw_is_active = u_is_active u,
       uw_created_at = u_created_at u, uw_updated_at = u_updated_at u \<rparr>"

fun role_string :: "user_role \<Rightarrow> string" where
  "role_string super_admin = ''super_admin''"
| "role_string author = ''author''"

record login_input =
  li_email :: string
  li_password :: string

record auth_response =
  ar_user :: user_without_password
  ar_token :: string

definition login :: "platform \<Rightarrow> db \<Rightarrow> login_input \<Rightarrow> error + auth_response" where
  "login pf d input =
     (case filter (\<lambda>u. u_email u = li_email input) (usersTable d) of
        [] \<Rightarrow> Inl ''Invalid email or password''
      | user # _ \<Rightarrow>
          if \<not> u_is_active user then Inl ''Account is deactivated''
          else if \<not> verifyPassword pf (li_password input) (u_password_hash user)
          then Inl ''Invalid email or password''
          else
            let token = createToken pf \<lparr> tp_userId = u_id user, tp_email = u_email user,
                                          tp_role = role_string (u_role user) \<rparr>
            in Inr \<lparr> ar_user = userWithoutPassword user, ar_token = token \<rparr>)"

text \<open>
  \<open>verifyToken\<close>. Its \<open>catch\<close> returns null: for a \<open>userId\<close> beyond the range of the id
  column the select throws and the result is null, as it is when no row has the id.
\<close>

definition verifyToken :: "platform \<Rightarrow> db \<Rightarrow> string \<Rightarrow> user_without_password option" where
  "verifyToken pf d token =
     (case verifyTokenSignature pf token of
        None \<Rightarrow> None
      | Some decoded \<Rightarrow>
          (case filter (\<lambda>u. u_id u = tp_userId decoded) (usersTable d) of
             [] \<Rightarrow> None
           | user # _ \<Rightarrow>
               if \<not> u_is_active user then None else Some (userWithoutPassword user)))"

section \<open>Blog post handler: the search filter of \<open>getBlogPosts\<close>\<close>

text \<open>
  The store's \<open>ILIKE\<close>: \<open>LIKE\<close> on the lower-cased pattern and value. In a \<open>LIKE\<close>
  pattern \<open>%\<close> matches any run of characters, \<open>_\<close> any one character, a backslash
  makes the next pattern character literal, every other character matches itself. On a
  null column the result is null, which selects no row.
\<close>

definition to_lower :: "char \<Rightarrow> char" where
  "to_lower c =
     (case map_of (zip ''ABCDEFGHIJKLMNOPQRSTUVWXYZ'' ''abcdefghijklmnopqrstuvwxyz'') c of
        None \<Rightarrow> c
      | Some l \<Rightarrow> l)"

fun like_match :: "string \<Rightarrow> string \<Rightarrow> bool" where
  "like_match [] s = (s = [])"
| "like_match (c # p) [] = (c = CHR ''%'' \<and> like_match p [])"
| "like_match (c # p) (x # s) =
     (if c = CHR ''%'' then like_match p (x # s) \<or> like_match (c # p) s
      else if c = CHR ''_'' then like_match p s
      else if c = CHR 0x5C then (case p of [] \<Rightarrow> False | e # p' \<Rightarrow> e = x \<and> like_match p' s)
      else c = x \<and> like_match p s)"

definition ilike :: "string option \<Rightarrow> string \<Rightarrow> bool" where
  "ilike column pattern =
     (case column of
        None \<Rightarrow> False
      | Some v \<Rightarrow> like_match (map to_lower pattern) (map to_lower v))"

text \<open>
  The condition that \<open>getBlogPosts\<close> pushes when \<open>input.search\<close> is set:
  \<open>or(ilike(title, `%${search}%`), ilike(content, `%${search}%`), ilike(excerpt, `%${search}%`))\<close>.
\<close>

definition search_condition :: "string \<Rightarrow> blog_post \<Rightarrow> bool" where
  "search_condition search p =
     (ilike (Some (p_title p)) (''%'' @ search @ ''%'')
      \<or> ilike (Some (p_content p)) (''%'' @ search @ ''%'')
      \<or> ilike (p_excerpt p) (''%'' @ search @ ''%''))"

text \<open>
  The specification's reading of the filter: the term occurs in the title, the content
  or the non-null excerpt, as a substring, letter case ignored.
\<close>

fun starts_with :: "string \<Rightarrow> string \<Rightarrow> bool" where
  "starts_with s [] = True"
| "starts_with [] (c # t) = False"
| "starts_with (x # s) (c # t) = (x = c \<and> starts_with s t)"

fun occurs_in :: "string \<Rightarrow> string \<Rightarrow> bool" where
  "occurs_in [] t = (t = [])"
| "occurs_in (x # s) t = (starts_with (x # s) t \<or> occurs_in s t)"

definition substring_ci :: "string \<Rightarrow> string \<Rightarrow> bool" where
  "substring_ci term txt = occurs_in (map to_lower txt) (map to_lower term)"

definition spec_search_matches :: "string \<Rightarrow> blog_post \<Rightarrow> bool" where
  "spec_search_matches search p =
     (substring_ci search (p_title p) \<or> substring_ci search (p_content p)
      \<or> (case p_excerpt p of None \<Rightarrow> False | Some e \<Rightarrow> substring_ci search e))"

text \<open>The characters with a meaning of their own in a \<open>LIKE\<close> pattern.\<close>

definition like_special :: "char \<Rightarrow> bool" where
  "like_special c = (c = CHR ''%'' \<or> c = CHR ''_'' \<or> c = CHR 0x5C)"

section \<open>Example data\<close>

definition example_config :: adsense_config where
  "example_config = \<lparr> ad_id = 1, ad_publisher_id = ''pub-1234567890'',
      ad_slot_header = Some ''header-slot'', ad_slot_sidebar = None,
      ad_slot_footer = Some ''footer-slot'', ad_slot_in_content = None,
      ad_is_enabled = True, ad_created_at = 100, ad_updated_at = 200 \<rparr>"

definition empty_db :: db where
  "empty_db = \<lparr> usersTable = [], categoriesTable = [], tagsTable = [], blogPostsTable = [],
      blogPostCategoriesTable = [], blogPostTagsTable = [], adSenseConfigTable = [],
      blog_posts_id_seq = 1 \<rparr>"

definition example_author :: user where
  "example_author = \<lparr> u_id = 1, u_email = ''author@test.com'', u_username = ''author'',
      u_password_hash = ''63934a1f2c998a0e334e96f25af29ff1db94928fdd0fa086c769b6838f6cf8fd'',
      u_first_name = ''Test'', u_last_name = ''Author'',
      u_role = author, u_avatar_url = None, u_bio = None, u_is_active = True,
      u_created_at = 10, u_updated_at = 10 \<rparr>"

definition example_admin :: user where
  "example_admin = \<lparr> u_id = 2, u_email = ''admin@test.com'', u_username = ''admin'',
      u_password_hash = ''63934a1f2c998a0e334e96f25af29ff1db94928fdd0fa086c769b6838f6cf8fd'',
      u_first_name = ''Super'', u_last_name = ''Admin'',
      u_role = super_admin, u_avatar_url = None, u_bio = None, u_is_active = True,
      u_created_at = 11, u_updated_at = 11 \<rparr>"

definition example_other :: user where
  "example_other = \<lparr> u_id = 3, u_email = ''another@test.com'', u_username = ''another'',
      u_password_hash = ''63934a1f2c998a0e334e96f25af29ff1db94928fdd0fa086c769b6838f6cf8fd'',
      u_first_name = ''Another'', u_last_name = ''Author'',
      u_role = author, u_avatar_url = None, u_bio = None, u_is_active = False,
      u_created_at = 12, u_updated_at = 12 \<rparr>"

definition example_post :: blog_post where
  "example_post = \<lparr> p_id = 1, p_title = ''Test Blog Post'', p_slug = ''test-blog-post'',
      p_content = ''This is test content'', p_excerpt = None, p_author_id = 1,
      p_featured_image_url = None, p_status = draft, p_published_at = None,
      p_created_at = 50, p_updated_at = 50 \<rparr>"

definition example_db :: db where
  "example_db = \<lparr>
      usersTable = [example_author, example_admin, example_other],
      categoriesTable =
        [\<lparr> c_id = 1, c_name = ''Technology'', c_slug = ''technology'', c_description = None,
            c_created_at = 20, c_updated_at = 20 \<rparr>,
         \<lparr> c_id = 2, c_name = ''Lifestyle'', c_slug = ''lifestyle'', c_description = None,
            c_created_at = 21, c_updated_at = 21 \<rparr>],
      tagsTable =
        [\<lparr> t_id = 1, t_name = ''JavaScript'', t_slug = ''javascript'',
            t_created_at = 30, t_updated_at = 30 \<rparr>,
         \<lparr> t_id = 2, t_name = ''React'', t_slug = ''react'',
            t_created_at = 31, t_updated_at = 31 \<rparr>],
      blogPostsTable = [example_post],
      blogPostCategoriesTable = [\<lparr> pc_blog_post_id = 1, pc_category_id = 1 \<rparr>],
      blogPostTagsTable = [\<lparr> pt_blog_post_id = 1, pt_tag_id = 1 \<rparr>],
      adSenseConfigTable = [example_config],
      blog_posts_id_seq = 2 \<rparr>"

definition example_create_input :: create_blog_post_input where
  "example_create_input = \<lparr> cbp_title = ''Second Post'', cbp_slug = ''second-post'',
      cbp_content = ''Some content'', cbp_excerpt = None, cbp_featured_image_url = None,
      cbp_status = published, cbp_category_ids = [1], cbp_tag_ids = Some [2] \<rparr>"

definition example_update_input :: update_blog_post_input where
  "example_update_input = \<lparr> ubp_id = 1, ubp_title = None, ubp_slug = None,
      ubp_content = None, ubp_excerpt = None, ubp_featured_image_url = None,
      ubp_status = None, ubp_category_ids = None, ubp_tag_ids = None \<rparr>"

definition example_created :: blog_post where
  "example_created = \<lparr> p_id = 2, p_title = ''Second Post'', p_slug = ''second-post'',
      p_content = ''Some content'', p_excerpt = None, p_author_id = 1,
      p_featured_image_url = None, p_status = published, p_published_at = Some 1000,
      p_created_at = 1000, p_updated_at = 1000 \<rparr>"

definition example_db_created :: db where
  "example_db_created = example_db \<lparr>
      blogPostsTable := [example_post, example_created],
      blogPostCategoriesTable := [\<lparr> pc_blog_post_id = 1, pc_category_id = 1 \<rparr>,
                                  \<lparr> pc_blog_post_id = 2, pc_category_id = 1 \<rparr>],
      blogPostTagsTable := [\<lparr> pt_blog_post_id = 1, pt_tag_id = 1 \<rparr>,
                            \<lparr> pt_blog_post_id = 2, pt_tag_id = 2 \<rparr>],
      blog_posts_id_seq := 3 \<rparr>"

text \<open>
  A platform whose clock reads 1700000000 seconds, with no \<open>JWT_SECRET\<close> set. Its
  functions are tables holding the values of the platform's functions at the arguments
  that the examples reach: the JSON text of the claims issued to \<open>example_author\<close> at
  that time, the objects that two encoded payloads parse to, and two SHA-256 digests.
\<close>

definition example_claims :: token_claims where
  "example_claims = \<lparr> tc_userId = 1, tc_email = ''author@test.com'', tc_role = ''author'',
      tc_iat = 1700000000, tc_exp = 1700086400 \<rparr>"

definition example_claims_json :: string where
  \<open>example_claims_json =
     ''{"userId":1,"email":"author@test.com","role":"author","iat":1700000000,"exp":1700086400}''\<close>

definition example_fresh_payload :: string where
  "example_fresh_payload =
     ''eyJ1c2VySWQiOjEsImVtYWlsIjoiYXV0aG9yQHRlc3QuY29tIiwicm9sZSI6ImF1dGhvciIsImlhdCI6MTcwMDAwMDAwMCwiZXhwIjoxNzAwMDg2NDAwfQ''"

text \<open>
  The encoded payload \<open>{"userId":1,"email":"author@test.com","role":"author","iat":0,"exp":0}\<close>:
  a token that expired at the epoch.
\<close>

definition example_epoch_payload :: string where
  "example_epoch_payload =
     ''eyJ1c2VySWQiOjEsImVtYWlsIjoiYXV0aG9yQHRlc3QuY29tIiwicm9sZSI6ImF1dGhvciIsImlhdCI6MCwiZXhwIjowfQ''"

definition example_platform :: platform where
  "example_platform = \<lparr>
      env_JWT_SECRET = None,
      date_now = 1700000000000,
      json_stringify = (\<lambda>claims. if claims = example_claims then example_claims_json else []),
      json_parse_atob = (\<lambda>s.
          if s = example_fresh_payload
          then Some \<lparr> pp_userId = 1, pp_email = ''author@test.com'', pp_role = ''author'',
                      pp_exp = Some 1700086400 \<rparr>
          else if s = example_epoch_payload
          then Some \<lparr> pp_userId = 1, pp_email = ''author@test.com'', pp_role = ''author'',
                      pp_exp = Some 0 \<rparr>
          else None),
      sha256_hex = (\<lambda>s.
          if s = ''testpassword123salt''
          then ''63934a1f2c998a0e334e96f25af29ff1db94928fdd0fa086c769b6838f6cf8fd''
          else if s = ''wrongpasswordsalt''
          then ''80d152901b917232eabc9d6f6f8724bd814c5a38f0d83af1adc578d1f6efb019''
          else []) \<rparr>"

definition example_fresh_token :: string where
  "example_fresh_token =
     ''eyJhbGciOiJIUzI1NiIsInR5cCI6IkpXVCJ9'' @ ''.'' @ example_fresh_payload @ ''.'' @
     ''ZXlKaGJHY2lPaUpJVXpJMU5pSXNJblI1Y0NJNklrcFhWQ0o5LmV5SjFjMlZ5U1dRaU9qRXNJbVZ0WVdsc0lqb2lZWFYwYUc5eVFIUmxjM1F1WTI5dElpd2ljbTlzWlNJNkltRjFkR2h2Y2lJc0ltbGhkQ0k2TVRjd01EQXdNREF3TUN3aVpYaHdJam94TnpBd01EZzJOREF3ZlEueW91ci1zZWNyZXQta2V5''"

definition example_epoch_token :: string where
  "example_epoch_token =
     ''eyJhbGciOiJIUzI1NiIsInR5cCI6IkpXVCJ9'' @ ''.'' @ example_epoch_payload @ ''.'' @
     ''ZXlKaGJHY2lPaUpJVXpJMU5pSXNJblI1Y0NJNklrcFhWQ0o5LmV5SjFjMlZ5U1dRaU9qRXNJbVZ0WVdsc0lqb2lZWFYwYUc5eVFIUmxjM1F1WTI5dElpd2ljbTlzWlNJNkltRjFkR2h2Y2lJc0ltbGhkQ0k2TUN3aVpYaHdJam93ZlEueW91ci1zZWNyZXQta2V5''"

section \<open>Theorems\<close>

subsection \<open>Shared lemmas\<close>

lemma math_ceil_div_ceiling:
  assumes "0 < lmt"
  shows "math_ceil_div tot lmt = \<lceil>real_of_int tot / real_of_int lmt\<rceil>"
proof -
  have "\<lceil>real_of_int tot / real_of_int lmt\<rceil> = - ((- tot) div lmt)"
    by (simp add: ceiling_divide_eq_div)
  also have "\<dots> = math_ceil_div tot lmt"
    using assms by (auto simp: math_ceil_div_def zdiv_zminus1_eq_if)
  finally show ?thesis by simp
qed

lemma math_ceil_div_covers:
  assumes "0 < lmt"
  shows "tot \<le> math_ceil_div tot lmt * lmt"
proof (cases "tot mod lmt = 0")
  case True
  have "tot div lmt * lmt + tot mod lmt = tot" by simp
  with True have "tot div lmt * lmt = tot" by simp
  with True show ?thesis by (simp add: math_ceil_div_def)
next
  case False
  have "tot = tot div lmt * lmt + tot mod lmt" by simp
  moreover have "tot mod lmt < lmt" using assms by simp
  ultimately have "tot \<le> (tot div lmt + 1) * lmt"
    by (smt (verit) distrib_right mult_cancel_right2)
  with False show ?thesis by (simp add: math_ceil_div_def)
qed

lemma p_id_set_values [simp]: "p_id (set_values now input publishedAt row) = p_id row"
  by (simp add: set_values_def)



lemma length_select_where_id_in:
  assumes "distinct (map key rows)" and "distinct ids" and "ids \<noteq> []"
  shows "length (select_where_id_in key ids rows) = length ids
         \<longleftrightarrow> set ids \<subseteq> key ` set rows"
proof -
  let ?sel = "filter (\<lambda>r. key r \<in> set ids) rows"
  have "distinct (map key ?sel)"
    using assms(1) by (rule distinct_map_filter)
  then have "length ?sel = card (set (map key ?sel))"
    by (metis distinct_card length_map)
  also have "set (map key ?sel) = set ids \<inter> key ` set rows"
    by auto
  finally have len: "length ?sel = card (set ids \<inter> key ` set rows)" .
  have ids: "length ids = card (set ids)"
    using assms(2) by (simp add: distinct_card)
  have "card (set ids \<inter> key ` set rows) = card (set ids) \<longleftrightarrow> set ids \<subseteq> key ` set rows"
  proof
    assume "card (set ids \<inter> key ` set rows) = card (set ids)"
    then have "set ids \<inter> key ` set rows = set ids"
      by (intro card_subset_eq) simp_all
    then show "set ids \<subseteq> key ` set rows" by blast
  next
    assume "set ids \<subseteq> key ` set rows"
    then have "set ids \<inter> key ` set rows = set ids" by blast
    then show "card (set ids \<inter> key ` set rows) = card (set ids)" by simp
  qed
  then show ?thesis
    using assms(3) by (simp add: select_where_id_in_def len ids)
qed



lemmas example_defs =
  example_db_def example_db_created_def example_post_def example_created_def
  example_author_def example_admin_def example_other_def example_config_def
  example_create_input_def example_update_input_def









lemma example_repeated_category:
  "updateBlogPost 2000 example_db
       (example_update_input \<lparr> ubp_category_ids := Some [2, 2] \<rparr>) 1 ''author''
     = Inl ''One or more categories not found''"
  by (simp add: updateBlogPost_def Let_def int4_def select_where_id_in_def example_defs)

lemma createBlogPost_categories_not_found_iff:
  assumes "int4 authorId" and "filter (\<lambda>u. u_id u = authorId) (usersTable d) \<noteq> []"
    and "distinct (map c_id (categoriesTable d))"
    and "distinct (cbp_category_ids input)" and "cbp_category_ids input \<noteq> []"
    and "list_all int4 (cbp_category_ids input)"
  shows "createBlogPost now d input authorId = Inl ''One or more categories not found''
         \<longleftrightarrow> \<not> set (cbp_category_ids input) \<subseteq> c_id ` set (categoriesTable d)"
  using assms(1,2,6) length_select_where_id_in [OF assms(3,4,5)]
  by (simp add: createBlogPost_def Let_def unique_violation_def integer_out_of_range_def)

lemma createBlogPost_tags_not_found_iff:
  assumes "int4 authorId" and "filter (\<lambda>u. u_id u = authorId) (usersTable d) \<noteq> []"
    and "distinct (map c_id (categoriesTable d))"
    and "distinct (cbp_category_ids input)" and "cbp_category_ids input \<noteq> []"
    and "list_all int4 (cbp_category_ids input)"
    and "set (cbp_category_ids input) \<subseteq> c_id ` set (categoriesTable d)"
    and "cbp_tag_ids input = Some tag_ids" and "tag_ids \<noteq> []" and "list_all int4 tag_ids"
    and "distinct (map t_id (tagsTable d))" and "distinct tag_ids"
  shows "createBlogPost now d input authorId = Inl ''One or more tags not found''
         \<longleftrightarrow> \<not> set tag_ids \<subseteq> t_id ` set (tagsTable d)"
  using assms(1,2,6,7,8,9,10) length_select_where_id_in [OF assms(3,4,5)]
        length_select_where_id_in [OF assms(11,12,9)]
  by (simp add: createBlogPost_def Let_def unique_violation_def integer_out_of_range_def)

lemma example_createToken:
  "createToken example_platform
     \<lparr> tp_userId = 1, tp_email = ''author@test.com'', tp_role = ''author'' \<rparr>
   = example_fresh_token"
  by code_simp

lemma example_login:
  "login example_platform example_db
     \<lparr> li_email = ''author@test.com'', li_password = ''testpassword123'' \<rparr>
   = Inr \<lparr> ar_user = userWithoutPassword example_author, ar_token = example_fresh_token \<rparr>"
  by code_simp

lemma example_verify_fresh:
  "verifyToken example_platform example_db example_fresh_token
   = Some (userWithoutPassword example_author)"
  by code_simp

lemma verifyTokenSignature_rejects:
  "length (split_dot token) \<noteq> 3 \<Longrightarrow> verifyTokenSignature pf token = None"
  "split_dot token = [h, p, s] \<Longrightarrow>
     s \<noteq> strip_padding (btoa (h @ ''.'' @ p @ ''.'' @ JWT_SECRET pf)) \<Longrightarrow>
     verifyTokenSignature pf token = None"
  "split_dot token = [h, p, s] \<Longrightarrow> json_parse_atob pf p = None \<Longrightarrow>
     verifyTokenSignature pf token = None"
  "split_dot token = [h, p, s] \<Longrightarrow> json_parse_atob pf p = Some payload \<Longrightarrow>
     pp_exp payload = Some e \<Longrightarrow> e \<noteq> 0 \<Longrightarrow> e < date_now pf div 1000 \<Longrightarrow>
     verifyTokenSignature pf token = None"
  by (auto simp: verifyTokenSignature_def Let_def split: list.splits)

lemma verifyToken_results:
  "verifyTokenSignature pf token = None \<Longrightarrow> verifyToken pf d token = None"
  "verifyTokenSignature pf token = Some decoded \<Longrightarrow>
     filter (\<lambda>u. u_id u = tp_userId decoded) (usersTable d) = [] \<Longrightarrow>
     verifyToken pf d token = None"
  "verifyTokenSignature pf token = Some decoded \<Longrightarrow>
     filter (\<lambda>u. u_id u = tp_userId decoded) (usersTable d) = user # rest \<Longrightarrow>
     verifyToken pf d token = (if u_is_active user then Some (userWithoutPassword user) else None)"
  by (simp_all add: verifyToken_def)

subsection \<open>Base64 is injective and free of dots; a tampered token is rejected\<close>

lemma b64_alphabet_distinct: "distinct b64_alphabet" "length b64_alphabet = 64"
  by (simp_all add: b64_alphabet_def)

lemma b64_char_inj:
  assumes "m < 64" and "n < 64" and "b64_char m = b64_char n"
  shows "m = n"
  using assms b64_alphabet_distinct by (simp add: b64_char_def nth_eq_iff_index_eq)

lemma b64_char_plain:
  assumes "n < 64"
  shows "b64_char n \<noteq> CHR ''=''" and "b64_char n \<noteq> CHR ''.''"
proof -
  have "b64_char n \<in> set b64_alphabet"
    using assms by (simp add: b64_char_def b64_alphabet_distinct(2))
  moreover have "CHR ''='' \<notin> set b64_alphabet" "CHR ''.'' \<notin> set b64_alphabet"
    by (simp_all add: b64_alphabet_def)
  ultimately show "b64_char n \<noteq> CHR ''=''" and "b64_char n \<noteq> CHR ''.''" by auto
qed

lemma strip_b64_1:
  assumes "a < 256"
  shows "strip_padding (b64_encode [a]) = [b64_char (a div 4), b64_char ((a mod 4) * 16)]"
proof -
  have "a div 4 < 64" "(a mod 4) * 16 < 64" using assms by auto
  then show ?thesis by (simp add: strip_padding_def b64_char_plain)
qed

lemma strip_b64_2:
  assumes "a < 256" and "b < 256"
  shows "strip_padding (b64_encode [a, b]) =
           [b64_char (a div 4), b64_char ((a mod 4) * 16 + b div 16),
            b64_char ((b mod 16) * 4)]"
proof -
  have "a div 4 < 64" "(a mod 4) * 16 + b div 16 < 64" "(b mod 16) * 4 < 64"
    using assms by auto
  then show ?thesis by (simp add: strip_padding_def b64_char_plain)
qed

lemma strip_b64_3:
  assumes "a < 256" and "b < 256" and "c < 256"
  shows "strip_padding (b64_encode (a # b # c # rest)) =
           b64_char (a div 4) # b64_char ((a mod 4) * 16 + b div 16)
             # b64_char ((b mod 16) * 4 + c div 64) # b64_char (c mod 64)
             # strip_padding (b64_encode rest)"
proof -
  have "a div 4 < 64" "(a mod 4) * 16 + b div 16 < 64" "(b mod 16) * 4 + c div 64 < 64"
       "c mod 64 < 64"
    using assms by auto
  then show ?thesis by (simp add: strip_padding_def b64_char_plain)
qed

lemma pack_inj:
  fixes x y x' y' k :: nat
  assumes "y < k" and "y' < k" and "x * k + y = x' * k + y'"
  shows "x = x' \<and> y = y'"
proof -
  have "(x * k + y) div k = x" "(x' * k + y') div k = x'"
    using assms(1,2) by simp_all
  with assms(3) have "x = x'" by simp
  with assms(3) show ?thesis by simp
qed

lemma split_inj:
  fixes a a' k :: nat
  assumes "a div k = a' div k" and "a mod k = a' mod k"
  shows "a = a'"
  using assms by (metis div_mult_mod_eq)

lemma pack_bound:
  fixes x y :: nat
  assumes "x < m" and "y < k"
  shows "x * k + y < m * k"
proof -
  have "x * k + y < x * k + k" using assms(2) by simp
  also have "\<dots> = (Suc x) * k" by simp
  also have "\<dots> \<le> m * k" using assms(1) by (intro mult_le_mono1) simp
  finally show ?thesis .
qed

lemma sextets_1:
  assumes "a < 256" "a' < 256"
    and "b64_char (a div 4) = b64_char (a' div 4)"
    and "b64_char ((a mod 4) * 16) = b64_char ((a' mod 4) * 16)"
  shows "a = a'"
proof -
  have "a div 4 < 64" "a' div 4 < 64" using assms(1,2) by simp_all
  then have 1: "a div 4 = a' div 4" using assms(3) by (rule b64_char_inj)
  have "(a mod 4) * 16 + 0 < 4 * 16" "(a' mod 4) * 16 + 0 < 4 * 16"
    by (intro pack_bound; simp)+
  then have "(a mod 4) * 16 < 64" "(a' mod 4) * 16 < 64" by simp_all
  then have "(a mod 4) * 16 = (a' mod 4) * 16" using assms(4) by (rule b64_char_inj)
  then have "a mod 4 = a' mod 4" by simp
  with 1 show ?thesis by (rule split_inj[where k = 4])
qed

lemma sextets_2:
  assumes "a < 256" "a' < 256" "b < 256" "b' < 256"
    and "b64_char (a div 4) = b64_char (a' div 4)"
    and "b64_char ((a mod 4) * 16 + b div 16) = b64_char ((a' mod 4) * 16 + b' div 16)"
    and "b64_char ((b mod 16) * 4) = b64_char ((b' mod 16) * 4)"
  shows "a = a' \<and> b = b'"
proof -
  have "a div 4 < 64" "a' div 4 < 64" using assms(1,2) by simp_all
  then have 1: "a div 4 = a' div 4" using assms(5) by (rule b64_char_inj)
  have lt: "b div 16 < 16" "b' div 16 < 16" using assms(3,4) by simp_all
  have "(a mod 4) * 16 + b div 16 < 4 * 16" "(a' mod 4) * 16 + b' div 16 < 4 * 16"
    using lt by (intro pack_bound; simp)+
  then have "(a mod 4) * 16 + b div 16 < 64" "(a' mod 4) * 16 + b' div 16 < 64"
    by simp_all
  then have "(a mod 4) * 16 + b div 16 = (a' mod 4) * 16 + b' div 16"
    using assms(6) by (rule b64_char_inj)
  with lt have 2: "a mod 4 = a' mod 4 \<and> b div 16 = b' div 16"
    by (rule pack_inj[where k = 16])
  have "(b mod 16) * 4 + 0 < 16 * 4" "(b' mod 16) * 4 + 0 < 16 * 4"
    by (intro pack_bound; simp)+
  then have "(b mod 16) * 4 < 64" "(b' mod 16) * 4 < 64" by simp_all
  then have "(b mod 16) * 4 = (b' mod 16) * 4" using assms(7) by (rule b64_char_inj)
  then have 3: "b mod 16 = b' mod 16" by simp
  have "a = a'" using 1 conjunct1[OF 2] by (rule split_inj[where k = 4])
  moreover have "b = b'" using conjunct2[OF 2] 3 by (rule split_inj[where k = 16])
  ultimately show ?thesis by blast
qed

lemma sextets_3:
  assumes "a < 256" "a' < 256" "b < 256" "b' < 256" "c < 256" "c' < 256"
    and "b64_char (a div 4) = b64_char (a' div 4)"
    and "b64_char ((a mod 4) * 16 + b div 16) = b64_char ((a' mod 4) * 16 + b' div 16)"
    and "b64_char ((b mod 16) * 4 + c div 64) = b64_char ((b' mod 16) * 4 + c' div 64)"
    and "b64_char (c mod 64) = b64_char (c' mod 64)"
  shows "a = a' \<and> b = b' \<and> c = c'"
proof -
  have "a div 4 < 64" "a' div 4 < 64" using assms(1,2) by simp_all
  then have 1: "a div 4 = a' div 4" using assms(7) by (rule b64_char_inj)
  have lt: "b div 16 < 16" "b' div 16 < 16" using assms(3,4) by simp_all
  have "(a mod 4) * 16 + b div 16 < 4 * 16" "(a' mod 4) * 16 + b' div 16 < 4 * 16"
    using lt by (intro pack_bound; simp)+
  then have "(a mod 4) * 16 + b div 16 < 64" "(a' mod 4) * 16 + b' div 16 < 64"
    by simp_all
  then have "(a mod 4) * 16 + b div 16 = (a' mod 4) * 16 + b' div 16"
    using assms(8) by (rule b64_char_inj)
  with lt have 2: "a mod 4 = a' mod 4 \<and> b div 16 = b' div 16"
    by (rule pack_inj[where k = 16])
  have lt': "c div 64 < 4" "c' div 64 < 4" using assms(5,6) by simp_all
  have "(b mod 16) * 4 + c div 64 < 16 * 4" "(b' mod 16) * 4 + c' div 64 < 16 * 4"
    using lt' by (intro pack_bound; simp)+
  then have "(b mod 16) * 4 + c div 64 < 64" "(b' mod 16) * 4 + c' div 64 < 64"
    by simp_all
  then have "(b mod 16) * 4 + c div 64 = (b' mod 16) * 4 + c' div 64"
    using assms(9) by (rule b64_char_inj)
  with lt' have 3: "b mod 16 = b' mod 16 \<and> c div 64 = c' div 64"
    by (rule pack_inj[where k = 4])
  have "c mod 64 < 64" "c' mod 64 < 64" by simp_all
  then have 4: "c mod 64 = c' mod 64" using assms(10) by (rule b64_char_inj)
  have "a = a'" using 1 conjunct1[OF 2] by (rule split_inj[where k = 4])
  moreover have "b = b'" using conjunct2[OF 2] conjunct1[OF 3] by (rule split_inj[where k = 16])
  moreover have "c = c'" using conjunct2[OF 3] 4 by (rule split_inj[where k = 64])
  ultimately show ?thesis by blast
qed

lemma strip_b64_0: "strip_padding (b64_encode []) = []"
  by (simp add: strip_padding_def)

lemma b64_encode_inj:
  assumes "list_all (\<lambda>x. x < 256) bs" and "list_all (\<lambda>x. x < 256) bs'"
    and "strip_padding (b64_encode bs) = strip_padding (b64_encode bs')"
  shows "bs = bs'"
  using assms
proof (induction bs arbitrary: bs' rule: b64_encode.induct)
  case 1
  then show ?case
    by (cases bs' rule: b64_encode.cases)
       (simp_all add: strip_b64_0 strip_b64_1 strip_b64_2 strip_b64_3 del: b64_encode.simps)
next
  case (2 a)
  show ?case
  proof (cases bs' rule: b64_encode.cases)
    case (2 a')
    from "2.prems" 2 have lt: "a < 256" "a' < 256" by simp_all
    from "2.prems"(3) 2 lt
    have e: "b64_char (a div 4) = b64_char (a' div 4)"
      "b64_char ((a mod 4) * 16) = b64_char ((a' mod 4) * 16)"
      by (simp_all add: strip_b64_1 del: b64_encode.simps)
    from sextets_1[OF lt e] show ?thesis using 2 by simp
  qed (use "2.prems" in \<open>simp_all add: strip_b64_0 strip_b64_1 strip_b64_2 strip_b64_3
                                      del: b64_encode.simps\<close>)
next
  case (3 a b)
  show ?case
  proof (cases bs' rule: b64_encode.cases)
    case (3 a' b')
    from "3.prems" 3 have lt: "a < 256" "a' < 256" "b < 256" "b' < 256" by simp_all
    from "3.prems"(3) 3 lt
    have e: "b64_char (a div 4) = b64_char (a' div 4)"
      "b64_char ((a mod 4) * 16 + b div 16) = b64_char ((a' mod 4) * 16 + b' div 16)"
      "b64_char ((b mod 16) * 4) = b64_char ((b' mod 16) * 4)"
      by (simp_all add: strip_b64_2 del: b64_encode.simps)
    from sextets_2[OF lt e] show ?thesis using 3 by simp
  qed (use "3.prems" in \<open>simp_all add: strip_b64_0 strip_b64_1 strip_b64_2 strip_b64_3
                                      del: b64_encode.simps\<close>)
next
  case (4 a b c rest)
  show ?case
  proof (cases bs' rule: b64_encode.cases)
    case (4 a' b' c' rest')
    from "4.prems" 4 have lt: "a < 256" "b < 256" "c < 256" "a' < 256" "b' < 256" "c' < 256"
      and r: "list_all (\<lambda>x. x < 256) rest" "list_all (\<lambda>x. x < 256) rest'" by simp_all
    from "4.prems"(3) 4 lt
    have e: "b64_char (a div 4) = b64_char (a' div 4)"
      "b64_char ((a mod 4) * 16 + b div 16) = b64_char ((a' mod 4) * 16 + b' div 16)"
      "b64_char ((b mod 16) * 4 + c div 64) = b64_char ((b' mod 16) * 4 + c' div 64)"
      "b64_char (c mod 64) = b64_char (c' mod 64)"
      and tl: "strip_padding (b64_encode rest) = strip_padding (b64_encode rest')"
      by (simp_all add: strip_b64_3 del: b64_encode.simps)
    from sextets_3[OF lt(1,4,2,5,3,6) e] have "a = a' \<and> b = b' \<and> c = c'" .
    moreover from "4.IH"[OF r tl] have "rest = rest'" .
    ultimately show ?thesis using 4 by simp
  qed (use "4.prems" in \<open>simp_all add: strip_b64_0 strip_b64_1 strip_b64_2 strip_b64_3
                                      del: b64_encode.simps\<close>)
qed

lemma btoa_inj:
  assumes "strip_padding (btoa s) = strip_padding (btoa s')"
  shows "s = s'"
proof -
  have "list_all (\<lambda>x. x < 256) (map of_char s :: nat list)"
       "list_all (\<lambda>x. x < 256) (map of_char s' :: nat list)"
    by (simp_all add: list_all_iff)
  from b64_encode_inj[OF this] assms have "map of_char s = (map of_char s' :: nat list)"
    by (simp add: btoa_def)
  then show ?thesis by (simp add: inj_map_eq_map inj_of_char)
qed

lemma b64_encode_no_dot:
  assumes "list_all (\<lambda>x. x < 256) bs"
  shows "CHR ''.'' \<notin> set (b64_encode bs)"
  using assms
proof (induction bs rule: b64_encode.induct)
  case (2 a)
  then have "a div 4 < 64" "(a mod 4) * 16 < 64" by auto
  from this[THEN b64_char_plain(2)] show ?case by auto
next
  case (3 a b)
  then have "a div 4 < 64" "(a mod 4) * 16 + b div 16 < 64" "(b mod 16) * 4 < 64" by auto
  from this[THEN b64_char_plain(2)] show ?case by auto
next
  case (4 a b c rest)
  then have "a div 4 < 64" "(a mod 4) * 16 + b div 16 < 64" "(b mod 16) * 4 + c div 64 < 64"
       "c mod 64 < 64" by auto
  from this[THEN b64_char_plain(2)] 4 show ?case by auto
qed simp

lemma btoa_no_dot: "CHR ''.'' \<notin> set (strip_padding (btoa s))"
proof -
  have "list_all (\<lambda>x. x < 256) (map of_char s :: nat list)" by (simp add: list_all_iff)
  from b64_encode_no_dot[OF this] show ?thesis by (simp add: btoa_def strip_padding_def)
qed

lemma split_dot_not_Nil: "split_dot xs \<noteq> []"
  by (induction xs) (auto split: list.splits)

lemma split_dot_plain: "CHR ''.'' \<notin> set xs \<Longrightarrow> split_dot xs = [xs]"
  by (induction xs) auto

lemma split_dot_append:
  "CHR ''.'' \<notin> set xs \<Longrightarrow> split_dot (xs @ CHR ''.'' # ys) = xs # split_dot ys"
  by (induction xs) auto

lemma length_split_dot:
  "length (split_dot xs) = Suc (length (filter (\<lambda>c. c = CHR ''.'') xs))"
proof (induction xs)
  case Nil
  then show ?case by simp
next
  case (Cons x xs)
  then show ?case
    using split_dot_not_Nil[of xs] by (cases "split_dot xs") auto
qed

lemma length_filter_update:
  "i < length xs \<Longrightarrow>
   length (filter P (xs[i := c])) + (if P (xs ! i) then 1 else 0)
     = length (filter P xs) + (if P c then 1 else 0)"
proof (induction xs arbitrary: i)
  case Nil
  then show ?case by simp
next
  case (Cons x xs)
  then show ?case by (cases i) auto
qed

lemma update_cases:
  assumes "i < length (H @ d # R)"
  obtains
    (left) "i < length H" "(H @ d # R)[i := c] = H[i := c] @ d # R" "(H @ d # R) ! i = H ! i"
  | (mid) "(H @ d # R) ! i = d"
  | (right) j where "j < length R" "(H @ d # R)[i := c] = H @ d # R[j := c]"
      "(H @ d # R) ! i = R ! j"
proof (cases "i < length H")
  case True
  then show ?thesis by (intro left) (simp_all add: list_update_append nth_append)
next
  case False
  show ?thesis
  proof (cases "i - length H")
    case 0
    with False show ?thesis by (intro mid) (simp add: nth_append)
  next
    case (Suc j)
    with False assms show ?thesis
      by (intro right[of j]) (simp_all add: list_update_append nth_append)
  qed
qed

lemma update_plain:
  assumes "CHR ''.'' \<notin> set X" and "c \<noteq> CHR ''.''" and "i < length X" and "c \<noteq> X ! i"
  shows "CHR ''.'' \<notin> set (X[i := c])" and "X[i := c] \<noteq> X"
proof -
  show "CHR ''.'' \<notin> set (X[i := c])"
    using assms(1,2) set_update_subset_insert[of X i c] by auto
  show "X[i := c] \<noteq> X"
    using assms(3,4) by (metis nth_list_update_eq)
qed

lemma sign_parts_inj:
  assumes "sign_parts pf h p = sign_parts pf h' p'"
    and "CHR ''.'' \<notin> set h" "CHR ''.'' \<notin> set h'"
    and "length p = length p'"
  shows "h = h' \<and> p = p'"
proof -
  from assms(1) have e: "h @ ''.'' @ p @ ''.'' @ JWT_SECRET pf = h' @ ''.'' @ p' @ ''.'' @ JWT_SECRET pf"
    unfolding sign_parts_def by (rule btoa_inj)
  have "split_dot (h @ ''.'' @ p @ ''.'' @ JWT_SECRET pf)
      = split_dot (h' @ ''.'' @ p' @ ''.'' @ JWT_SECRET pf)"
    using e by (rule arg_cong)
  then have "h # split_dot (p @ ''.'' @ JWT_SECRET pf) = h' # split_dot (p' @ ''.'' @ JWT_SECRET pf)"
    using assms(2,3) by (simp add: split_dot_append)
  then have "h = h'" by simp
  with e assms(4) show ?thesis by simp
qed

lemma reject_three:
  assumes "CHR ''.'' \<notin> set h" "CHR ''.'' \<notin> set p" "CHR ''.'' \<notin> set s"
    and "s \<noteq> sign_parts pf h p"
  shows "verifyTokenSignature pf (h @ CHR ''.'' # p @ CHR ''.'' # s) = None"
proof -
  have "split_dot (h @ CHR ''.'' # p @ CHR ''.'' # s) = [h, p, s]"
    using assms(1-3) by (simp add: split_dot_append split_dot_plain)
  then show ?thesis
    using assms(4) unfolding sign_parts_def by (rule verifyTokenSignature_rejects(2))
qed

lemma createToken_parts:
  obtains H P where "createToken pf payload = H @ CHR ''.'' # P @ CHR ''.'' # sign_parts pf H P"
    "CHR ''.'' \<notin> set H" "CHR ''.'' \<notin> set P"
proof -
  let ?H = "strip_padding (btoa header_json)"
  let ?P = "strip_padding (btoa (json_stringify pf
      \<lparr> tc_userId = tp_userId payload, tc_email = tp_email payload,
        tc_role = tp_role payload, tc_iat = date_now pf div 1000,
        tc_exp = date_now pf div 1000 + JWT_EXPIRES_IN_HOURS * 60 * 60 \<rparr>))"
  have "createToken pf payload = ?H @ CHR ''.'' # ?P @ CHR ''.'' # sign_parts pf ?H ?P"
    by (simp add: createToken_def Let_def sign_parts_def)
  then show ?thesis by (rule that) (rule btoa_no_dot)+
qed

lemma tampered_token_rejected:
  assumes "i < length (createToken pf payload)" and "c \<noteq> createToken pf payload ! i"
  shows "verifyTokenSignature pf ((createToken pf payload)[i := c]) = None"
proof -
  obtain H P where t: "createToken pf payload = H @ CHR ''.'' # P @ CHR ''.'' # sign_parts pf H P"
    and H: "CHR ''.'' \<notin> set H" and P: "CHR ''.'' \<notin> set P"
    by (rule createToken_parts)
  let ?S = "sign_parts pf H P"
  let ?t = "createToken pf payload"
  have S: "CHR ''.'' \<notin> set ?S" unfolding sign_parts_def by (rule btoa_no_dot)
  have dots: "length (filter (\<lambda>c. c = CHR ''.'') ?t) = 2"
    using H P S by (auto simp: t filter_empty_conv)
  show ?thesis
  proof (cases "c = CHR ''.'' \<or> ?t ! i = CHR ''.''")
    case True
    with assms(2) length_filter_update[OF assms(1), of "\<lambda>c. c = CHR ''.''" c] dots
    have "length (filter (\<lambda>c. c = CHR ''.'') (?t[i := c])) \<noteq> 2"
      by (auto split: if_splits)
    then have "length (split_dot (?t[i := c])) \<noteq> 3" by (simp add: length_split_dot)
    then show ?thesis by (rule verifyTokenSignature_rejects(1))
  next
    case False
    then have c: "c \<noteq> CHR ''.''" and ti: "?t ! i \<noteq> CHR ''.''" by simp_all
    from assms(1) have i: "i < length (H @ CHR ''.'' # (P @ CHR ''.'' # ?S))" by (simp add: t)
    from i show ?thesis
    proof (cases rule: update_cases[where c = c])
      case left
      with assms(2) have ne: "c \<noteq> H ! i" by (simp add: t)
      note H' = update_plain[OF H c left(1) ne]
      have "?S \<noteq> sign_parts pf (H[i := c]) P"
        using sign_parts_inj[of pf H P "H[i := c]" P] H H' by auto
      from reject_three[OF H'(1) P S this] show ?thesis by (simp add: t left(2))
    next
      case mid
      with ti show ?thesis by (simp add: t)
    next
      case (right j)
      from right(1) show ?thesis
      proof (cases rule: update_cases[where c = c])
        case left
        with assms(2) right(3) have ne: "c \<noteq> P ! j" by (simp add: t)
        note P' = update_plain[OF P c left(1) ne]
        have "?S \<noteq> sign_parts pf H (P[j := c])"
          using sign_parts_inj[of pf H P H "P[j := c]"] H P' by auto
        from reject_three[OF H P'(1) S this] show ?thesis by (simp add: t right(2) left(2))
      next
        case mid
        with ti right(3) show ?thesis by (simp add: t)
      next
        case (right k)
        with assms(2) \<open>(H @ CHR ''.'' # P @ CHR ''.'' # ?S) ! i = (P @ CHR ''.'' # ?S) ! j\<close>
        have ne: "c \<noteq> ?S ! k" by (simp add: t)
        note S' = update_plain[OF S c right(1) ne]
        from reject_three[OF H P S'(1) S'(2)] show ?thesis
          by (simp add: t right(2) \<open>(H @ CHR ''.'' # P @ CHR ''.'' # ?S)[i := c]
                 = H @ CHR ''.'' # (P @ CHR ''.'' # ?S)[j := c]\<close>)
      qed
    qed
  qed
qed

lemma tampered_token_verifyToken:
  assumes "i < length (createToken pf payload)" and "c \<noteq> createToken pf payload ! i"
  shows "verifyToken pf d ((createToken pf payload)[i := c]) = None"
  using tampered_token_rejected[OF assms] by (simp add: verifyToken_def)

subsection \<open>The search filter on terms without wildcards\<close>

lemma like_match_percent_all: "like_match ''%'' t"
  by (induction t) simp_all

lemma like_match_percent:
  "like_match (CHR ''%'' # p) t \<longleftrightarrow> (\<exists>u v. t = u @ v \<and> like_match p v)"
proof (induction t)
  case Nil
  then show ?case by simp
next
  case (Cons x t)
  show ?case
  proof
    assume "like_match (CHR ''%'' # p) (x # t)"
    then consider "like_match p (x # t)" | "like_match (CHR ''%'' # p) t" by auto
    then show "\<exists>u v. x # t = u @ v \<and> like_match p v"
    proof cases
      case 1
      then show ?thesis by (intro exI[of _ "[]"] exI[of _ "x # t"]) simp
    next
      case 2
      with Cons obtain u v where "t = u @ v" "like_match p v" by auto
      then show ?thesis by (intro exI[of _ "x # u"] exI[of _ v]) simp
    qed
  next
    assume "\<exists>u v. x # t = u @ v \<and> like_match p v"
    then obtain u v where uv: "x # t = u @ v" "like_match p v" by auto
    show "like_match (CHR ''%'' # p) (x # t)"
    proof (cases u)
      case Nil
      with uv have "like_match p (x # t)" by simp
      then show ?thesis by simp
    next
      case (Cons y u')
      with uv have "t = u' @ v" by simp
      with uv(2) Cons.IH have "like_match (CHR ''%'' # p) t" by auto
      then show ?thesis by simp
    qed
  qed
qed

lemma like_match_plain:
  assumes "\<forall>c\<in>set s. \<not> like_special c"
  shows "like_match (s @ p) t \<longleftrightarrow> (\<exists>v. t = s @ v \<and> like_match p v)"
  using assms
proof (induction s arbitrary: t)
  case Nil
  then show ?case by simp
next
  case (Cons c s)
  then have c: "c \<noteq> CHR ''%''" "c \<noteq> CHR ''_''" "c \<noteq> CHR 0x5C"
    by (auto simp: like_special_def)
  from Cons have IH: "\<And>t. like_match (s @ p) t \<longleftrightarrow> (\<exists>v. t = s @ v \<and> like_match p v)"
    by simp
  show ?case
  proof (cases t)
    case Nil
    then show ?thesis using c by simp
  next
    case (Cons x t')
    then show ?thesis using c IH[of t'] by auto
  qed
qed

lemma starts_with_iff: "starts_with t s \<longleftrightarrow> (\<exists>v. t = s @ v)"
  by (induction t s rule: starts_with.induct) auto

lemma occurs_in_iff: "occurs_in t s \<longleftrightarrow> (\<exists>u v. t = u @ s @ v)"
proof (induction t)
  case Nil
  then show ?case by simp
next
  case (Cons x t)
  show ?case
  proof
    assume "occurs_in (x # t) s"
    then consider "starts_with (x # t) s" | "occurs_in t s" by auto
    then show "\<exists>u v. x # t = u @ s @ v"
    proof cases
      case 1
      then obtain v where "x # t = s @ v" by (auto simp: starts_with_iff)
      then show ?thesis by (intro exI[of _ "[]"] exI[of _ v]) simp
    next
      case 2
      with Cons obtain u v where "t = u @ s @ v" by auto
      then show ?thesis by (intro exI[of _ "x # u"] exI[of _ v]) simp
    qed
  next
    assume "\<exists>u v. x # t = u @ s @ v"
    then obtain u v where uv: "x # t = u @ s @ v" by auto
    show "occurs_in (x # t) s"
    proof (cases u)
      case Nil
      with uv have "starts_with (x # t) s" by (auto simp: starts_with_iff)
      then show ?thesis by simp
    next
      case (Cons y u')
      with uv have "t = u' @ s @ v" by simp
      with Cons.IH have "occurs_in t s" by auto
      then show ?thesis by simp
    qed
  qed
qed

lemma like_match_substring:
  assumes "\<forall>c\<in>set s. \<not> like_special c"
  shows "like_match (''%'' @ s @ ''%'') t \<longleftrightarrow> occurs_in t s"
proof -
  have "like_match (''%'' @ s @ ''%'') t \<longleftrightarrow> (\<exists>u v. t = u @ v \<and> like_match (s @ ''%'') v)"
    using like_match_percent[of "s @ ''%''" t] by simp
  also have "\<dots> \<longleftrightarrow> (\<exists>u v. t = u @ v \<and> (\<exists>w. v = s @ w))"
    using like_match_plain[OF assms, of "''%''"] like_match_percent_all by simp
  also have "\<dots> \<longleftrightarrow> occurs_in t s"
    by (auto simp: occurs_in_iff)
  finally show ?thesis .
qed

lemma to_lower_special: "like_special (to_lower c) \<longleftrightarrow> like_special c"
proof (cases "map_of (zip ''ABCDEFGHIJKLMNOPQRSTUVWXYZ'' ''abcdefghijklmnopqrstuvwxyz'') c")
  case None
  then show ?thesis by (simp add: to_lower_def)
next
  case (Some l)
  then have "(c, l) \<in> set (zip ''ABCDEFGHIJKLMNOPQRSTUVWXYZ'' ''abcdefghijklmnopqrstuvwxyz'')"
    by (rule map_of_SomeD)
  then have "\<not> like_special c \<and> \<not> like_special l"
    by (auto simp: like_special_def)
  with Some show ?thesis by (simp add: to_lower_def)
qed

lemma ilike_substring:
  assumes "\<forall>c\<in>set search. \<not> like_special c"
  shows "ilike (Some v) (''%'' @ search @ ''%'') \<longleftrightarrow> substring_ci search v"
proof -
  have pct: "to_lower CHR ''%'' = CHR ''%''" by (simp add: to_lower_def)
  have "\<forall>c\<in>set (map to_lower search). \<not> like_special c"
    using assms by (simp add: to_lower_special)
  from like_match_substring[OF this]
  show ?thesis by (simp add: ilike_def substring_ci_def pct)
qed

lemma search_condition_plain_term:
  assumes "\<forall>c\<in>set search. \<not> like_special c"
  shows "search_condition search p \<longleftrightarrow> spec_search_matches search p"
  using ilike_substring[OF assms]
  by (cases "p_excerpt p") (simp_all add: search_condition_def spec_search_matches_def ilike_def)

subsection \<open>C1: existence checks of \<open>createBlogPost\<close>\<close>

text \<open>
  C1 says that \<open>createBlogPost\<close>, for an existing author, fails with "categories not found"
  exactly when some id of \<open>category_ids\<close> has no category, and with "tags not found"
  exactly when some id of a non-empty \<open>tag_ids\<close> has no tag; so that it raises neither
  when every id resolves. The handler compares the number of rows found with the number
  of ids given, and an id given twice is found once: with author 1, category 1 and tag 2
  all stored, \<open>category_ids = [1, 1]\<close> fails with "One or more categories not found" and
  \<open>tag_ids = [2, 2]\<close> with "One or more tags not found".
\<close>

theorem createBlogPost_duplicate_ids:
  "filter (\<lambda>u. u_id u = 1) (usersTable example_db) = [example_author]
   \<and> list_all (\<lambda>i. filter (\<lambda>c. c_id c = i) (categoriesTable example_db) \<noteq> []) [1, 1]
   \<and> createBlogPost 1000 example_db (example_create_input \<lparr> cbp_category_ids := [1, 1] \<rparr>) 1
       = Inl ''One or more categories not found''
   \<and> list_all (\<lambda>i. filter (\<lambda>t. t_id t = i) (tagsTable example_db) \<noteq> []) [2, 2]
   \<and> createBlogPost 1000 example_db (example_create_input \<lparr> cbp_tag_ids := Some [2, 2] \<rparr>) 1
       = Inl ''One or more tags not found''"
  by (simp add: createBlogPost_def Let_def int4_def select_where_id_in_def example_defs)

subsection \<open>C2: \<open>published_at\<close>\<close>




subsection \<open>C3: ownership\<close>

text \<open>
  C3 says that \<open>updateBlogPost\<close> and \<open>deleteBlogPost\<close> fail with "Blog post not found"
  whenever the referenced post does not exist. For the id 2147483648, which no post has
  and the input schema admits, the select by id is refused by the store: both fail with
  the store's range error instead.
\<close>

theorem post_id_out_of_range:
  "filter (\<lambda>p. p_id p = 2147483648) (blogPostsTable example_db) = []
   \<and> deleteBlogPost example_db 2147483648 2 ''super_admin''
       = Inl ''value is out of range for type integer''
   \<and> updateBlogPost 2000 example_db (example_update_input \<lparr> ubp_id := 2147483648 \<rparr>)
        2 ''super_admin''
       = Inl ''value is out of range for type integer''
   \<and> ''value is out of range for type integer'' \<noteq> ''Blog post not found''"
  by (simp add: deleteBlogPost_def updateBlogPost_def int4_def integer_out_of_range_def
        example_defs)

text \<open>
  C3, amended to the ids of the column's range. For an id outside the 32-bit range both
  handlers fail with the store's range error, whoever calls. For an id in range: when no
  post has it, both fail with "Blog post not found", whoever calls; when the post exists,
  each fails with its "Permission denied" error if and only if the caller's role is not
  \<open>super_admin\<close> and the caller's id is not the post's \<open>author_id\<close>, and for the owner
  and for a super-admin \<open>deleteBlogPost\<close> returns, having removed the post and its
  association rows.
\<close>

theorem post_ownership_check:
  "(\<not> int4 (ubp_id uin) \<longrightarrow> updateBlogPost now d uin uid role = Inl integer_out_of_range)
   \<and> (\<not> int4 postId \<longrightarrow> deleteBlogPost d postId uid role = Inl integer_out_of_range)
   \<and> (int4 (ubp_id uin) \<and> filter (\<lambda>p. p_id p = ubp_id uin) (blogPostsTable d) = [] \<longrightarrow>
        updateBlogPost now d uin uid role = Inl ''Blog post not found'')
   \<and> (int4 postId \<and> filter (\<lambda>p. p_id p = postId) (blogPostsTable d) = [] \<longrightarrow>
        deleteBlogPost d postId uid role = Inl ''Blog post not found'')
   \<and> (int4 (ubp_id uin)
        \<and> filter (\<lambda>p. p_id p = ubp_id uin) (blogPostsTable d) = post # rest \<longrightarrow>
        (updateBlogPost now d uin uid role
           = Inl ''Permission denied: can only update your own posts''
         \<longleftrightarrow> role \<noteq> ''super_admin'' \<and> p_author_id post \<noteq> uid))
   \<and> (int4 postId \<and> filter (\<lambda>p. p_id p = postId) (blogPostsTable d) = post' # rest' \<longrightarrow>
        (deleteBlogPost d postId uid role
           = Inl ''Permission denied: can only delete your own posts''
         \<longleftrightarrow> role \<noteq> ''super_admin'' \<and> p_author_id post' \<noteq> uid)
      \<and> (role = ''super_admin'' \<or> p_author_id post' = uid \<longrightarrow>
           deleteBlogPost d postId uid role
             = Inr (d \<lparr> blogPostsTable := filter (\<lambda>p. p_id p \<noteq> postId) (blogPostsTable d),
                        blogPostCategoriesTable :=
                          filter (\<lambda>r. pc_blog_post_id r \<noteq> postId) (blogPostCategoriesTable d),
                        blogPostTagsTable :=
                          filter (\<lambda>r. pt_blog_post_id r \<noteq> postId) (blogPostTagsTable d) \<rparr>,
                    True)))"
proof (intro conjI impI)
  assume "\<not> int4 (ubp_id uin)"
  then show "updateBlogPost now d uin uid role = Inl integer_out_of_range"
    by (simp add: updateBlogPost_def)
next
  assume "\<not> int4 postId"
  then show "deleteBlogPost d postId uid role = Inl integer_out_of_range"
    by (simp add: deleteBlogPost_def)
next
  assume "int4 (ubp_id uin) \<and> filter (\<lambda>p. p_id p = ubp_id uin) (blogPostsTable d) = []"
  then show "updateBlogPost now d uin uid role = Inl ''Blog post not found''"
    by (simp add: updateBlogPost_def)
next
  assume "int4 postId \<and> filter (\<lambda>p. p_id p = postId) (blogPostsTable d) = []"
  then show "deleteBlogPost d postId uid role = Inl ''Blog post not found''"
    by (simp add: deleteBlogPost_def)
next
  assume "int4 (ubp_id uin)
        \<and> filter (\<lambda>p. p_id p = ubp_id uin) (blogPostsTable d) = post # rest"
  then show "updateBlogPost now d uin uid role
         = Inl ''Permission denied: can only update your own posts''
       \<longleftrightarrow> role \<noteq> ''super_admin'' \<and> p_author_id post \<noteq> uid"
    by (simp add: updateBlogPost_def Let_def unique_violation_def integer_out_of_range_def)
next
  assume f: "int4 postId \<and> filter (\<lambda>p. p_id p = postId) (blogPostsTable d) = post' # rest'"
  then show "deleteBlogPost d postId uid role
         = Inl ''Permission denied: can only delete your own posts''
       \<longleftrightarrow> role \<noteq> ''super_admin'' \<and> p_author_id post' \<noteq> uid"
    by (simp add: deleteBlogPost_def)
  assume "role = ''super_admin'' \<or> p_author_id post' = uid"
  with f show "deleteBlogPost d postId uid role
             = Inr (d \<lparr> blogPostsTable := filter (\<lambda>p. p_id p \<noteq> postId) (blogPostsTable d),
                        blogPostCategoriesTable :=
                          filter (\<lambda>r. pc_blog_post_id r \<noteq> postId) (blogPostCategoriesTable d),
                        blogPostTagsTable :=
                          filter (\<lambda>r. pt_blog_post_id r \<noteq> postId) (blogPostTagsTable d) \<rparr>,
                    True)"
    by (auto simp: deleteBlogPost_def)
qed

theorem post_ownership_check_witness:
  "int4 1
   \<and> filter (\<lambda>p. p_id p = 1) (blogPostsTable example_db) = [example_post]
   \<and> p_author_id example_post = 1
   \<and> updateBlogPost 2000 example_db example_update_input 3 ''author''
       = Inl ''Permission denied: can only update your own posts''
   \<and> deleteBlogPost example_db 1 3 ''author''
       = Inl ''Permission denied: can only delete your own posts''
   \<and> updateBlogPost 2000 example_db example_update_input 1 ''author''
       = Inr (example_db \<lparr> blogPostsTable := [example_post \<lparr> p_updated_at := 2000 \<rparr>] \<rparr>,
              example_post \<lparr> p_updated_at := 2000 \<rparr>)
   \<and> updateBlogPost 2000 example_db example_update_input 3 ''super_admin''
       = Inr (example_db \<lparr> blogPostsTable := [example_post \<lparr> p_updated_at := 2000 \<rparr>] \<rparr>,
              example_post \<lparr> p_updated_at := 2000 \<rparr>)
   \<and> deleteBlogPost example_db 1 1 ''author''
       = Inr (example_db \<lparr> blogPostsTable := [], blogPostCategoriesTable := [],
                            blogPostTagsTable := [] \<rparr>, True)
   \<and> deleteBlogPost example_db 1 2 ''super_admin''
       = Inr (example_db \<lparr> blogPostsTable := [], blogPostCategoriesTable := [],
                            blogPostTagsTable := [] \<rparr>, True)
   \<and> int4 9999
   \<and> filter (\<lambda>p. p_id p = 9999) (blogPostsTable example_db) = []
   \<and> updateBlogPost 2000 example_db (example_update_input \<lparr> ubp_id := 9999 \<rparr>) 2 ''super_admin''
       = Inl ''Blog post not found''
   \<and> deleteBlogPost example_db 9999 2 ''super_admin'' = Inl ''Blog post not found''
   \<and> \<not> int4 2147483648
   \<and> updateBlogPost 2000 example_db (example_update_input \<lparr> ubp_id := 2147483648 \<rparr>) 1 ''author''
       = Inl integer_out_of_range
   \<and> deleteBlogPost example_db 2147483648 1 ''author'' = Inl integer_out_of_range"
  using post_ownership_check
          [where d = example_db and uin = example_update_input and postId = 1
             and now = 2000 and uid = 3 and role = "''author''"
             and post = example_post and rest = "[]" and post' = example_post and rest' = "[]"]
        post_ownership_check
          [where d = example_db and uin = example_update_input and postId = 1
             and now = 2000 and uid = 1 and role = "''author''"
             and post = example_post and rest = "[]" and post' = example_post and rest' = "[]"]
        post_ownership_check
          [where d = example_db and uin = example_update_input and postId = 1
             and now = 2000 and uid = 2 and role = "''super_admin''"
             and post = example_post and rest = "[]" and post' = example_post and rest' = "[]"]
        post_ownership_check
          [where d = example_db and uin = "example_update_input \<lparr> ubp_id := 9999 \<rparr>"
             and postId = 9999 and now = 2000 and uid = 2 and role = "''super_admin''"]
        post_ownership_check
          [where d = example_db and uin = "example_update_input \<lparr> ubp_id := 2147483648 \<rparr>"
             and postId = 2147483648 and now = 2000 and uid = 1 and role = "''author''"]
  by (simp add: int4_def updateBlogPost_def deleteBlogPost_def Let_def set_values_def
        determine_published_at_def example_defs)

subsection \<open>C4: association rows are replaced\<close>




subsection \<open>C5: \<open>verifyToken\<close>\<close>

text \<open>
  C5 says that \<open>verifyToken\<close> returns null whenever the token has not three parts, its
  signature is not the recomputed one, or its expiry is in the past. The expiry test is
  \<open>payload.exp && payload.exp < now\<close>, and the number 0 is falsy: a token whose payload is
  \<open>{"userId":1,"email":"author@test.com","role":"author","iat":0,"exp":0}\<close>, signed with
  the default secret, expired at the epoch, and at time 1700000000 \<open>verifyTokenSignature\<close>
  accepts it and \<open>verifyToken\<close> returns user 1. The rest of C5 holds: a token without
  three parts, with another signature, or with a non-zero expiry in the past is rejected
  (\<open>verifyTokenSignature_rejects\<close>); a missing or deactivated user gives null and an active
  one is returned without \<open>password_hash\<close> (\<open>verifyToken_results\<close>); an issued token with
  one character changed is rejected (\<open>tampered_token_verifyToken\<close>).
\<close>

theorem verifyToken_accepts_zero_expiry:
  "split_dot example_epoch_token
     = [''eyJhbGciOiJIUzI1NiIsInR5cCI6IkpXVCJ9'', example_epoch_payload,
        strip_padding (btoa (''eyJhbGciOiJIUzI1NiIsInR5cCI6IkpXVCJ9'' @ ''.''
           @ example_epoch_payload @ ''.'' @ ''your-secret-key''))]
   \<and> map_option pp_exp (json_parse_atob example_platform example_epoch_payload) = Some (Some 0)
   \<and> 0 < date_now example_platform div 1000
   \<and> verifyTokenSignature example_platform example_epoch_token
       = Some \<lparr> tp_userId = 1, tp_email = ''author@test.com'', tp_role = ''author'' \<rparr>
   \<and> verifyToken example_platform example_db example_epoch_token
       = Some (userWithoutPassword example_author)"
  by code_simp

subsection \<open>C6: results of \<open>login\<close>\<close>

text \<open>
  C6: \<open>login\<close> fails with "Invalid email or password" when no user has the email, and with
  the same message when the user is active and the SHA-256 digest of the password with
  its salt is not the stored hash; it fails with "Account is deactivated", a different
  error, when the user is not active; otherwise it returns the token that \<open>createToken\<close>
  issues for the user's id, email and role, and the user's record: each of its fields
  with the stored value, except \<open>password_hash\<close>, which the returned record does not
  have.
\<close>

theorem login_results:
  "(filter (\<lambda>u. u_email u = li_email input) (usersTable d) = [] \<longrightarrow>
      login pf d input = Inl ''Invalid email or password'')
   \<and> (filter (\<lambda>u. u_email u = li_email input) (usersTable d) = user # rest \<longrightarrow>
        (u_is_active user
           \<and> sha256_hex pf (li_password input @ ''salt'') \<noteq> u_password_hash user \<longrightarrow>
           login pf d input = Inl ''Invalid email or password'')
      \<and> (\<not> u_is_active user \<longrightarrow>
           login pf d input = Inl ''Account is deactivated''
           \<and> login pf d input \<noteq> Inl ''Invalid email or password'')
      \<and> (u_is_active user
           \<and> sha256_hex pf (li_password input @ ''salt'') = u_password_hash user \<longrightarrow>
           login pf d input =
             Inr \<lparr> ar_user =
                     \<lparr> uw_id = u_id user, uw_email = u_email user,
                       uw_username = u_username user, uw_first_name = u_first_name user,
                       uw_last_name = u_last_name user, uw_role = u_role user,
                       uw_avatar_url = u_avatar_url user, uw_bio = u_bio user,
                       uw_is_active = u_is_active user, uw_created_at = u_created_at user,
                       uw_updated_at = u_updated_at user \<rparr>,
                   ar_token =
                     createToken pf
                       \<lparr> tp_userId = u_id user, tp_email = u_email user,
                         tp_role = (case u_role user of super_admin \<Rightarrow> ''super_admin''
                                    | author \<Rightarrow> ''author'') \<rparr> \<rparr>))"
  by (cases "u_role user")
     (simp_all add: login_def verifyPassword_def hashPassword_def userWithoutPassword_def)

theorem login_results_witness:
  "filter (\<lambda>u. u_email u = ''nonexistent@example.com'') (usersTable example_db) = []
   \<and> login example_platform example_db
        \<lparr> li_email = ''nonexistent@example.com'', li_password = ''anypassword'' \<rparr>
      = Inl ''Invalid email or password''
   \<and> filter (\<lambda>u. u_email u = ''author@test.com'') (usersTable example_db) = [example_author]
   \<and> u_is_active example_author
   \<and> sha256_hex example_platform (''wrongpassword'' @ ''salt'') \<noteq> u_password_hash example_author
   \<and> login example_platform example_db
        \<lparr> li_email = ''author@test.com'', li_password = ''wrongpassword'' \<rparr>
      = Inl ''Invalid email or password''
   \<and> filter (\<lambda>u. u_email u = ''another@test.com'') (usersTable example_db) = [example_other]
   \<and> \<not> u_is_active example_other
   \<and> login example_platform example_db
        \<lparr> li_email = ''another@test.com'', li_password = ''testpassword123'' \<rparr>
      = Inl ''Account is deactivated''
   \<and> sha256_hex example_platform (''testpassword123'' @ ''salt'') = u_password_hash example_author
   \<and> login example_platform example_db
        \<lparr> li_email = ''author@test.com'', li_password = ''testpassword123'' \<rparr>
      = Inr \<lparr> ar_user =
                \<lparr> uw_id = 1, uw_email = ''author@test.com'', uw_username = ''author'',
                  uw_first_name = ''Test'', uw_last_name = ''Author'', uw_role = author,
                  uw_avatar_url = None, uw_bio = None, uw_is_active = True,
                  uw_created_at = 10, uw_updated_at = 10 \<rparr>,
              ar_token = example_fresh_token \<rparr>"
  using login_results [where pf = example_platform and d = example_db and user = example_author
          and rest = "[]"
          and input = "\<lparr> li_email = ''nonexistent@example.com'', li_password = ''anypassword'' \<rparr>"]
        login_results [where pf = example_platform and d = example_db and user = example_author
          and rest = "[]"
          and input = "\<lparr> li_email = ''author@test.com'', li_password = ''wrongpassword'' \<rparr>"]
        login_results [where pf = example_platform and d = example_db and user = example_other
          and rest = "[]"
          and input = "\<lparr> li_email = ''another@test.com'', li_password = ''testpassword123'' \<rparr>"]
        login_results [where pf = example_platform and d = example_db and user = example_author
          and rest = "[]"
          and input = "\<lparr> li_email = ''author@test.com'', li_password = ''testpassword123'' \<rparr>"]
        example_createToken
  by (simp add: example_db_def example_author_def example_admin_def
        example_other_def example_platform_def)

subsection \<open>C7: the search filter\<close>

text \<open>
  C7 says that a post passes the search filter exactly when the search term occurs, letter
  case ignored, in its title, content or non-null excerpt, for every term, also one with
  \<open>%\<close> or \<open>_\<close>. The handler puts the term into the \<open>ILIKE\<close> pattern as it is, where
  \<open>%\<close> and \<open>_\<close> are wildcards: the post titled "Test Blog Post" with content "This is
  test content" and no excerpt passes the filter for the terms \<open>_\<close>, \<open>%\<close> and \<open>t_st\<close>,
  none of which occurs in it. For a term without \<open>%\<close>, \<open>_\<close> and backslash, such as
  \<open>BLOG\<close>, the filter is the substring test (\<open>search_condition_plain_term\<close>).
\<close>

theorem search_wildcards_not_escaped:
  "search_condition ''_'' example_post
   \<and> \<not> spec_search_matches ''_'' example_post
   \<and> search_condition ''%'' example_post
   \<and> \<not> spec_search_matches ''%'' example_post
   \<and> search_condition ''t_st'' example_post
   \<and> \<not> spec_search_matches ''t_st'' example_post
   \<and> search_condition ''BLOG'' example_post
   \<and> spec_search_matches ''BLOG'' example_post"
  by code_simp

subsection \<open>C8: pagination of \<open>getUsers\<close>\<close>

text \<open>
  C8: for a page and a limit of at least 1, \<open>getUsers\<close> reports as \<open>total\<close> the number of
  stored users, whatever the page and limit, and as \<open>totalPages\<close> the ceiling of
  \<open>total / limit\<close>; a page beyond the last has no items and the full total. With 3 users
  and limit 2, page 1 has 2 items and \<open>totalPages = 2\<close>, page 2 has 1 item, page 10 has
  none and \<open>total = 3\<close>.
\<close>

theorem getUsers_pagination:
  assumes "1 \<le> page input" and "1 \<le> limit input"
  shows "up_total (getUsers d input) = int (length (usersTable d))
    \<and> up_totalPages (getUsers d input)
        = \<lceil>real_of_int (up_total (getUsers d input)) / real_of_int (limit input)\<rceil>
    \<and> up_items (getUsers d input)
        = take (nat (limit input)) (drop (nat ((page input - 1) * limit input)) (usersTable d))
    \<and> (up_totalPages (getUsers d input) < page input \<longrightarrow>
          up_items (getUsers d input) = [] \<and> up_total (getUsers d input) = int (length (usersTable d)))
    \<and> (length (usersTable d) = 3 \<and> limit input = 2 \<longrightarrow>
          (page input = 1 \<longrightarrow> length (up_items (getUsers d input)) = 2
                                \<and> up_totalPages (getUsers d input) = 2)
        \<and> (page input = 2 \<longrightarrow> length (up_items (getUsers d input)) = 1)
        \<and> (page input = 10 \<longrightarrow> length (up_items (getUsers d input)) = 0
                                \<and> up_total (getUsers d input) = 3))"
proof -
  let ?n = "int (length (usersTable d))"
  have tot: "up_total (getUsers d input) = ?n"
    by (simp add: getUsers_def Let_def)
  have pages: "up_totalPages (getUsers d input) = math_ceil_div ?n (limit input)"
    by (simp add: getUsers_def Let_def)
  have items: "up_items (getUsers d input)
        = take (nat (limit input)) (drop (nat ((page input - 1) * limit input)) (usersTable d))"
    by (simp add: getUsers_def Let_def)
  have ceil: "up_totalPages (getUsers d input)
        = \<lceil>real_of_int (up_total (getUsers d input)) / real_of_int (limit input)\<rceil>"
    using assms(2) by (simp add: tot pages math_ceil_div_ceiling)
  have beyond: "up_items (getUsers d input) = []"
    if "up_totalPages (getUsers d input) < page input"
  proof -
    have "math_ceil_div ?n (limit input) \<le> page input - 1" using that pages by simp
    then have "math_ceil_div ?n (limit input) * limit input \<le> (page input - 1) * limit input"
      using assms(2) by (simp add: mult_right_mono)
    moreover have "?n \<le> math_ceil_div ?n (limit input) * limit input"
      using assms(2) by (intro math_ceil_div_covers) simp
    ultimately have "?n \<le> (page input - 1) * limit input" by linarith
    then have "length (usersTable d) \<le> nat ((page input - 1) * limit input)" by linarith
    then show ?thesis by (simp add: items)
  qed
  have concrete: "(page input = 1 \<longrightarrow> length (up_items (getUsers d input)) = 2
                                \<and> up_totalPages (getUsers d input) = 2)
        \<and> (page input = 2 \<longrightarrow> length (up_items (getUsers d input)) = 1)
        \<and> (page input = 10 \<longrightarrow> length (up_items (getUsers d input)) = 0
                                \<and> up_total (getUsers d input) = 3)"
    if "length (usersTable d) = 3" "limit input = 2"
    using that by (simp add: items pages tot math_ceil_div_def)
  show ?thesis using tot ceil items beyond concrete by blast
qed

theorem getUsers_pagination_witness:
  "length (usersTable example_db) = 3
   \<and> up_total (getUsers example_db \<lparr> page = 1, limit = 2 \<rparr>) = 3
   \<and> up_totalPages (getUsers example_db \<lparr> page = 1, limit = 2 \<rparr>) = 2
   \<and> up_items (getUsers example_db \<lparr> page = 1, limit = 2 \<rparr>) = [example_author, example_admin]
   \<and> up_items (getUsers example_db \<lparr> page = 2, limit = 2 \<rparr>) = [example_other]
   \<and> up_items (getUsers example_db \<lparr> page = 10, limit = 2 \<rparr>) = []
   \<and> up_total (getUsers example_db \<lparr> page = 10, limit = 2 \<rparr>) = 3"
  using getUsers_pagination [of "\<lparr> page = 1, limit = 2 \<rparr>" example_db]
        getUsers_pagination [of "\<lparr> page = 2, limit = 2 \<rparr>" example_db]
        getUsers_pagination [of "\<lparr> page = 10, limit = 2 \<rparr>" example_db]
  by (simp add: example_db_def)

subsection \<open>C9: the public ad configuration\<close>

text \<open>
  C9: \<open>getPublicAdSenseConfig\<close> returns null when no configuration row is stored, and
  otherwise the four ad slots and \<open>is_enabled\<close> of the row that \<open>getAdSenseConfig\<close> returns.
  Its result type has these five fields and no other: no \<open>id\<close>, \<open>publisher_id\<close>,
  \<open>created_at\<close> or \<open>updated_at\<close>, which the row of \<open>getAdSenseConfig\<close> has.
\<close>

theorem getPublicAdSenseConfig_public_fields:
  "getPublicAdSenseConfig d =
     (case getAdSenseConfig d of
        None \<Rightarrow> None
      | Some config \<Rightarrow>
          Some \<lparr> pub_ad_slot_header = ad_slot_header config,
                 pub_ad_slot_sidebar = ad_slot_sidebar config,
                 pub_ad_slot_footer = ad_slot_footer config,
                 pub_ad_slot_in_content = ad_slot_in_content config,
                 pub_is_enabled = ad_is_enabled config \<rparr>)
   \<and> getAdSenseConfig d =
     (case adSenseConfigTable d of [] \<Rightarrow> None | config # rest \<Rightarrow> Some config)
   \<and> (getPublicAdSenseConfig d = None \<longleftrightarrow> adSenseConfigTable d = [])"
  by (cases "adSenseConfigTable d") (simp_all add: getPublicAdSenseConfig_def getAdSenseConfig_def)

theorem getPublicAdSenseConfig_public_fields_witness:
  "getPublicAdSenseConfig empty_db = None
   \<and> getAdSenseConfig (empty_db \<lparr> adSenseConfigTable := [example_config] \<rparr>) = Some example_config
   \<and> getPublicAdSenseConfig (empty_db \<lparr> adSenseConfigTable := [example_config] \<rparr>) =
       Some \<lparr> pub_ad_slot_header = Some ''header-slot'', pub_ad_slot_sidebar = None,
              pub_ad_slot_footer = Some ''footer-slot'', pub_ad_slot_in_content = None,
              pub_is_enabled = True \<rparr>"
  using getPublicAdSenseConfig_public_fields [of empty_db]
        getPublicAdSenseConfig_public_fields [of "empty_db \<lparr> adSenseConfigTable := [example_config] \<rparr>"]
  by (simp add: empty_db_def example_config_def)

subsection \<open>C10: \<open>login\<close> tests \<open>is_active\<close> before the password\<close>

text \<open>
  C10: for a deactivated account \<open>login\<close> fails with "Account is deactivated" whatever
  password is supplied, a wrong one included, while an unknown email fails with "Invalid
  email or password": the two results differ, so a caller who does not know the
  password can tell a deactivated account from a missing one.
\<close>

theorem login_deactivated_before_password:
  assumes "filter (\<lambda>u. u_email u = email) (usersTable d) = user # rest"
    and "\<not> u_is_active user"
    and "filter (\<lambda>u. u_email u = unknown) (usersTable d) = []"
  shows "login pf d \<lparr> li_email = email, li_password = password \<rparr>
           = Inl ''Account is deactivated''
       \<and> login pf d \<lparr> li_email = unknown, li_password = password \<rparr>
           = Inl ''Invalid email or password''
       \<and> login pf d \<lparr> li_email = email, li_password = password \<rparr>
           \<noteq> login pf d \<lparr> li_email = unknown, li_password = password \<rparr>"
  using assms by (simp add: login_def)

theorem login_deactivated_before_password_witness:
  "filter (\<lambda>u. u_email u = ''another@test.com'') (usersTable example_db) = [example_other]
   \<and> \<not> u_is_active example_other
   \<and> hashPassword example_platform ''wrongpassword'' \<noteq> u_password_hash example_other
   \<and> filter (\<lambda>u. u_email u = ''nonexistent@example.com'') (usersTable example_db) = []
   \<and> login example_platform example_db
        \<lparr> li_email = ''another@test.com'', li_password = ''wrongpassword'' \<rparr>
      = Inl ''Account is deactivated''
   \<and> login example_platform example_db
        \<lparr> li_email = ''nonexistent@example.com'', li_password = ''wrongpassword'' \<rparr>
      = Inl ''Invalid email or password''"
  using login_deactivated_before_password
          [where pf = example_platform and d = example_db and user = example_other
             and rest = "[]" and email = "''another@test.com''"
             and unknown = "''nonexistent@example.com''" and password = "''wrongpassword''"]
  by (simp add: hashPassword_def example_db_def example_author_def example_admin_def
        example_other_def example_platform_def)

end
